theory Spec2Isabelle
  imports Main
begin

section \<open>Python values reaching the callbacks\<close>

text \<open>
  The callback arguments are typed \<open>Any\<close>, \<open>Dict[str, Any]\<close>, \<open>List[str]\<close> and so on in
  \<^verbatim>\<open>src/wrapper/vertex_wrapper.py\<close>; Python checks none of it, so every argument is a
  dynamically typed value. \<open>PObj s r attrs\<close> is any other object (a UUID, an exception,
  an \<open>LLMResult\<close>, a \<open>Document\<close>), given by the text of \<open>str(obj)\<close>, the text of
  \<open>repr(obj)\<close> and its attributes. A dictionary is the list of its items in insertion
  order, with string keys, each key once. Strings are UTF-8 byte strings. \<open>repr\<close> keeps
  every byte from 0x80 on as it is: the characters beyond ASCII that Python would escape
  (the ones that are not printable, such as U+00A0) are outside the model.
\<close>

datatype pyval =
    PNone
  | PBool bool
  | PInt int
  | PStr string
  | PList "pyval list"
  | PDict "(string \<times> pyval) list"
  | PObj string string "(string \<times> pyval) list"

datatype py_error =
    KeyError string
  | IndexError
  | AttributeError string
  | TypeError
  | UnboundLocalError string
  | BdbQuit

type_synonym kwargs = "(string \<times> pyval) list"

subsection \<open>\<open>str\<close> and \<open>repr\<close>\<close>

fun join :: "string \<Rightarrow> string list \<Rightarrow> string" where
  "join sep [] = []"
| "join sep [x] = x"
| "join sep (x # y # ys) = x @ sep @ join sep (y # ys)"

definition digit_char :: "nat \<Rightarrow> char" where
  "digit_char d = char_of (48 + d)"

function nat_str :: "nat \<Rightarrow> string" where
  "nat_str n = (if n < 10 then [digit_char n] else nat_str (n div 10) @ [digit_char (n mod 10)])"
  by pat_completeness auto
termination
  by (relation "measure id") auto

definition int_str :: "int \<Rightarrow> string" where
  "int_str i = (if i < 0 then CHR ''-'' # nat_str (nat (- i)) else nat_str (nat i))"

definition hex_char :: "nat \<Rightarrow> char" where
  "hex_char d = (if d < 10 then char_of (48 + d) else char_of (87 + d))"

definition repr_quote :: "string \<Rightarrow> char" where
  "repr_quote s = (if CHR 0x27 \<in> set s \<and> CHR 0x22 \<notin> set s then CHR 0x22 else CHR 0x27)"

definition repr_char :: "char \<Rightarrow> char \<Rightarrow> string" where
  "repr_char q c =
     (if c = q \<or> c = CHR 0x5C then [CHR 0x5C, c]
      else if c = CHR 0x09 then [CHR 0x5C, CHR ''t'']
      else if c = CHR 0x0A then [CHR 0x5C, CHR ''n'']
      else if c = CHR 0x0D then [CHR 0x5C, CHR ''r'']
      else if (of_char c :: nat) < 32 \<or> c = CHR 0x7F
        then [CHR 0x5C, CHR ''x'', hex_char (of_char c div 16), hex_char (of_char c mod 16)]
      else [c])"

definition str_repr :: "string \<Rightarrow> string" where
  "str_repr s = (let q = repr_quote s in q # concat (map (repr_char q) s) @ [q])"

primrec py_repr :: "pyval \<Rightarrow> string" where
  "py_repr PNone = ''None''"
| "py_repr (PBool b) = (if b then ''True'' else ''False'')"
| "py_repr (PInt i) = int_str i"
| "py_repr (PStr s) = str_repr s"
| "py_repr (PList xs) = ''['' @ join '', '' (map py_repr xs) @ '']''"
| "py_repr (PDict kvs) =
     ''{'' @ join '', '' (map (\<lambda>(k, r). str_repr k @ '': '' @ r) (map (map_prod id py_repr) kvs)) @ ''}''"
| "py_repr (PObj s r attrs) = r"

text \<open>\<open>f"{v}"\<close> is \<open>format(v, "")\<close>, which is \<open>str(v)\<close> for every value here.\<close>

definition py_str :: "pyval \<Rightarrow> string" where
  "py_str v = (case v of PStr s \<Rightarrow> s | PObj s r attrs \<Rightarrow> s | _ \<Rightarrow> py_repr v)"

definition kwargs_str :: "kwargs \<Rightarrow> string" where
  "kwargs_str kw = py_str (PDict kw)"

subsection \<open>The operations of Python the handlers use, with their exceptions\<close>

definition getitem_str :: "pyval \<Rightarrow> string \<Rightarrow> py_error + pyval" where
  "getitem_str d k =
     (case d of
        PDict kvs \<Rightarrow> (case map_of kvs k of None \<Rightarrow> Inl (KeyError k) | Some v \<Rightarrow> Inr v)
      | _ \<Rightarrow> Inl TypeError)"

definition getitem_int :: "pyval \<Rightarrow> nat \<Rightarrow> py_error + pyval" where
  "getitem_int xs i =
     (case xs of
        PList vs \<Rightarrow> (if i < length vs then Inr (vs ! i) else Inl IndexError)
      | PStr s \<Rightarrow> (if i < length s then Inr (PStr [s ! i]) else Inl IndexError)
      | PDict kvs \<Rightarrow> Inl (KeyError (nat_str i))
      | _ \<Rightarrow> Inl TypeError)"

definition py_len :: "pyval \<Rightarrow> py_error + nat" where
  "py_len v =
     (case v of
        PStr s \<Rightarrow> Inr (length s)
      | PList vs \<Rightarrow> Inr (length vs)
      | PDict kvs \<Rightarrow> Inr (length kvs)
      | _ \<Rightarrow> Inl TypeError)"

definition py_getattr :: "pyval \<Rightarrow> string \<Rightarrow> py_error + pyval" where
  "py_getattr v a =
     (case v of
        PObj s r attrs \<Rightarrow> (case map_of attrs a of None \<Rightarrow> Inl (AttributeError a) | Some x \<Rightarrow> Inr x)
      | _ \<Rightarrow> Inl (AttributeError a))"

definition py_hasattr :: "pyval \<Rightarrow> string \<Rightarrow> bool" where
  "py_hasattr v a = (case py_getattr v a of Inl e \<Rightarrow> False | Inr x \<Rightarrow> True)"

definition py_keys :: "pyval \<Rightarrow> py_error + string list" where
  "py_keys d = (case d of PDict kvs \<Rightarrow> Inr (map fst kvs) | _ \<Rightarrow> Inl (AttributeError ''keys''))"

definition py_items :: "pyval \<Rightarrow> py_error + (string \<times> pyval) list" where
  "py_items d = (case d of PDict kvs \<Rightarrow> Inr kvs | _ \<Rightarrow> Inl (AttributeError ''items''))"

text \<open>Iteration: a list gives its elements, a string its characters, a dictionary its keys.\<close>

definition py_iter :: "pyval \<Rightarrow> py_error + pyval list" where
  "py_iter v =
     (case v of
        PList vs \<Rightarrow> Inr vs
      | PStr s \<Rightarrow> Inr (map (\<lambda>c. PStr [c]) s)
      | PDict kvs \<Rightarrow> Inr (map (\<lambda>kv. PStr (fst kv)) kvs)
      | _ \<Rightarrow> Inl TypeError)"

fun the_strs :: "pyval list \<Rightarrow> py_error + string list" where
  "the_strs [] = Inr []"
| "the_strs (PStr s # vs) = (case the_strs vs of Inl e \<Rightarrow> Inl e | Inr ss \<Rightarrow> Inr (s # ss))"
| "the_strs (v # vs) = Inl TypeError"

text \<open>\<open>sep.join(v)\<close>: \<open>v\<close> must be iterable and every item a string.\<close>

definition py_join :: "string \<Rightarrow> pyval \<Rightarrow> py_error + string" where
  "py_join sep v =
     (case py_iter v of
        Inl e \<Rightarrow> Inl e
      | Inr vs \<Rightarrow> (case the_strs vs of Inl e \<Rightarrow> Inl e | Inr ss \<Rightarrow> Inr (join sep ss)))"


definition sbind :: "py_error + 'a \<Rightarrow> ('a \<Rightarrow> py_error + 'b) \<Rightarrow> py_error + 'b" where
  "sbind x f = (case x of Inl e \<Rightarrow> Inl e | Inr v \<Rightarrow> f v)"

definition fmt :: "py_error + pyval \<Rightarrow> py_error + string" where
  "fmt x = (case x of Inl e \<Rightarrow> Inl e | Inr v \<Rightarrow> Inr (py_str v))"

definition kwargs_get :: "kwargs \<Rightarrow> string \<Rightarrow> py_error + pyval" where
  "kwargs_get kw k = getitem_str (PDict kw) k"

section \<open>What a handler does: output and exceptions\<close>

text \<open>
  \<open>out\<close> is a class object; a handler only looks attributes up on it and calls them. The
  class is modelled by the names of its attributes, so a lookup of a name that is not
  there raises \<open>AttributeError\<close>.
\<close>

record formatter =
  class_attrs :: "string list"

text \<open>
  A handler writes to the console through the methods of \<open>self.out\<close>, through \<open>print\<close>, and
  it may call \<open>breakpoint()\<close>. Its run is the sequence of these effects, in order, together
  with the exception that ended it, if one did. \<open>Other m text\<close> is a call of a method that
  \<open>OutputFormatter\<close> does not define. \<open>Breakpoint\<close> is the call of \<open>breakpoint()\<close>; in a run
  the operator resumes from it, and \<open>under_operator\<close> below gives the run when the operator
  quits instead. \<open>SetDebugMode\<close> and \<open>SetOut\<close> are the assignments \<open>self.debug_mode = ...\<close>
  and \<open>self.out = ...\<close>: a statement that changes the reporter is an effect of the run, and
  the reporter after a call is the reporter before it with the assignments of the run
  made. Writing to the console is taken to succeed.
\<close>

datatype effect =
    Heading string
  | KeyInfo string
  | KeyInfoLabeled string string bool
  | DebugInfo string
  | DebugInfoLabeled string string bool
  | LlmCall string
  | LlmOutput string
  | ToolCall string
  | ToolOutput string
  | DebugError string
  | Other string string
  | Print string
  | Breakpoint
  | SetDebugMode bool
  | SetOut formatter

type_synonym 'a run = "effect list \<times> (py_error + 'a)"

definition emit :: "effect \<Rightarrow> unit run" where
  "emit e = ([e], Inr ())"

definition raise :: "py_error \<Rightarrow> 'a run" where
  "raise e = ([], Inl e)"

definition skip :: "unit run" where
  "skip = ([], Inr ())"

definition eval :: "py_error + 'a \<Rightarrow> 'a run" where
  "eval x = ([], x)"

definition bind :: "'a run \<Rightarrow> ('a \<Rightarrow> 'b run) \<Rightarrow> 'b run" where
  "bind m f =
     (case m of
        (t, Inl e) \<Rightarrow> (t, Inl e)
      | (t, Inr x) \<Rightarrow> (case f x of (t', r) \<Rightarrow> (t @ t', r)))"

text \<open>A block of statements: they run in order and the first exception ends the block.\<close>

fun seqs :: "unit run list \<Rightarrow> unit run" where
  "seqs [] = skip"
| "seqs (s # ss) = bind s (\<lambda>_. seqs ss)"

definition trace :: "'a run \<Rightarrow> effect list" where
  "trace r = fst r"

definition raised :: "'a run \<Rightarrow> py_error option" where
  "raised r = (case snd r of Inl e \<Rightarrow> Some e | Inr x \<Rightarrow> None)"

definition returns_normally :: "'a run \<Rightarrow> bool" where
  "returns_normally r = (raised r = None)"





section \<open>\<open>Color\<close> and \<open>OutputFormatter\<close>\<close>

definition ESC :: string where "ESC = [CHR 0x1B]"
definition NL :: string where "NL = [CHR 0x0A]"

definition PURPLE :: string where "PURPLE = ESC @ ''[95m''"
definition CYAN :: string where "CYAN = ESC @ ''[96m''"
definition DARKCYAN :: string where "DARKCYAN = ESC @ ''[36m''"
definition BLUE :: string where "BLUE = ESC @ ''[94m''"
definition GREEN :: string where "GREEN = ESC @ ''[92m''"
definition YELLOW :: string where "YELLOW = ESC @ ''[93m''"
definition RED :: string where "RED = ESC @ ''[91m''"
definition BOLD :: string where "BOLD = ESC @ ''[1m''"
definition UNDERLINE :: string where "UNDERLINE = ESC @ ''[4m''"
definition ITALICS :: string where "ITALICS = ESC @ ''[3m''"
definition END :: string where "END = ESC @ ''[0m'' @ ESC @ ''[0m''"

definition OutputFormatter :: formatter where
  "OutputFormatter = \<lparr>class_attrs =
     [''heading'', ''key_info'', ''key_info_labeled'', ''debug_info'', ''debug_info_labeled'',
      ''llm_call'', ''llm_output'', ''tool_call'', ''tool_output'', ''debug_error'']\<rparr>"

text \<open>
  \<open>str.splitlines\<close>. The line boundaries are CR LF, LF, CR, VT, FF, FS, GS, RS, and, in
  UTF-8, U+0085 (C2 85), U+2028 (E2 80 A8) and U+2029 (E2 80 A9). \<open>boundary s\<close> is the
  number of bytes of the boundary \<open>s\<close> starts with, or 0.
\<close>

definition ascii_breaks :: "char list" where
  "ascii_breaks = [CHR 0x0A, CHR 0x0B, CHR 0x0C, CHR 0x0D, CHR 0x1C, CHR 0x1D, CHR 0x1E]"

fun boundary :: "string \<Rightarrow> nat" where
  "boundary [] = 0"
| "boundary [c] = (if c \<in> set ascii_breaks then 1 else 0)"
| "boundary [c, d] =
     (if c = CHR 0x0D \<and> d = CHR 0x0A then 2
      else if c \<in> set ascii_breaks then 1
      else if c = CHR 0xC2 \<and> d = CHR 0x85 then 2
      else 0)"
| "boundary (c # d # e # cs) =
     (if c = CHR 0x0D \<and> d = CHR 0x0A then 2
      else if c \<in> set ascii_breaks then 1
      else if c = CHR 0xC2 \<and> d = CHR 0x85 then 2
      else if c = CHR 0xE2 \<and> d = CHR 0x80 \<and> (e = CHR 0xA8 \<or> e = CHR 0xA9) then 3
      else 0)"

function splitlines_from :: "string \<Rightarrow> string \<Rightarrow> string list" where
  "splitlines_from cur s =
     (if s = [] then (if cur = [] then [] else [rev cur])
      else if boundary s > 0 then rev cur # splitlines_from [] (drop (boundary s) s)
      else splitlines_from (hd s # cur) (tl s))"
  by pat_completeness auto
termination
  by (relation "measure (\<lambda>(cur, s). length s)") auto

definition splitlines :: "string \<Rightarrow> string list" where
  "splitlines s = splitlines_from [] s"

text \<open>
  The text \<open>OutputFormatter\<close> writes for one effect. \<open>cpprint\<close> comes from the
  \<open>prettyprinter\<close> package: what it writes for a string is the parameter \<open>cpprint\<close>.
  \<open>print\<close> ends its text with a newline unless \<open>end=""\<close> is given.
\<close>

definition labeled_contents :: "string \<Rightarrow> bool \<Rightarrow> string" where
  "labeled_contents contents contents_newlined =
     (if contents_newlined then py_str (PList (map PStr (splitlines contents))) else contents)"

fun OutputFormatter_text :: "(string \<Rightarrow> string) \<Rightarrow> effect \<Rightarrow> string" where
  "OutputFormatter_text cpprint (Heading text) = BOLD @ text @ END @ NL"
| "OutputFormatter_text cpprint (KeyInfo text) = BOLD @ DARKCYAN @ text @ END @ NL"
| "OutputFormatter_text cpprint (KeyInfoLabeled label contents contents_newlined) =
     BOLD @ DARKCYAN @ label @ '': '' @ END @ DARKCYAN
       @ cpprint (labeled_contents contents contents_newlined) @ END"
| "OutputFormatter_text cpprint (DebugInfo text) = BLUE @ text @ END @ NL"
| "OutputFormatter_text cpprint (DebugInfoLabeled label contents contents_newlined) =
     BOLD @ BLUE @ label @ '': '' @ END @ BLUE
       @ cpprint (labeled_contents contents contents_newlined) @ END"
| "OutputFormatter_text cpprint (LlmCall text) = ITALICS @ text @ END @ NL"
| "OutputFormatter_text cpprint (LlmOutput text) = UNDERLINE @ text @ END @ NL"
| "OutputFormatter_text cpprint (ToolCall text) = ITALICS @ PURPLE @ text @ END @ NL"
| "OutputFormatter_text cpprint (ToolOutput text) = UNDERLINE @ PURPLE @ text @ END @ NL"
| "OutputFormatter_text cpprint (DebugError text) = BOLD @ RED @ text @ END @ NL"
| "OutputFormatter_text cpprint (Other m text) = []"
| "OutputFormatter_text cpprint (Print text) = text @ NL"
| "OutputFormatter_text cpprint Breakpoint = []"
| "OutputFormatter_text cpprint (SetDebugMode b) = []"
| "OutputFormatter_text cpprint (SetOut fm) = []"

definition console_text :: "(string \<Rightarrow> string) \<Rightarrow> effect list \<Rightarrow> string" where
  "console_text cpprint t = concat (map (OutputFormatter_text cpprint) t)"

subsection \<open>Calling a method of \<open>self.out\<close>\<close>

text \<open>
  Python looks the method up on \<open>self.out\<close> first, then evaluates the arguments, then
  calls. The methods that print a bare text format it with \<open>f"{text}"\<close>, so the effect
  holds the formatted text.
\<close>

definition call :: "formatter \<Rightarrow> string \<Rightarrow> (py_error + effect) \<Rightarrow> unit run" where
  "call fm name arg =
     (if name \<in> set (class_attrs fm)
      then (case arg of Inl e \<Rightarrow> raise e | Inr c \<Rightarrow> emit c)
      else raise (AttributeError name))"

definition with_arg :: "(string \<Rightarrow> effect) \<Rightarrow> py_error + string \<Rightarrow> py_error + effect" where
  "with_arg mk x = (case x of Inl e \<Rightarrow> Inl e | Inr s \<Rightarrow> Inr (mk s))"

definition heading :: "formatter \<Rightarrow> string \<Rightarrow> unit run" where
  "heading fm text = call fm ''heading'' (Inr (Heading text))"

definition key_info :: "formatter \<Rightarrow> py_error + string \<Rightarrow> unit run" where
  "key_info fm text = call fm ''key_info'' (with_arg KeyInfo text)"

definition key_info_labeled :: "formatter \<Rightarrow> string \<Rightarrow> py_error + string \<Rightarrow> bool \<Rightarrow> unit run" where
  "key_info_labeled fm label contents contents_newlined =
     call fm ''key_info_labeled'' (with_arg (\<lambda>c. KeyInfoLabeled label c contents_newlined) contents)"

definition debug_info_labeled :: "formatter \<Rightarrow> string \<Rightarrow> py_error + string \<Rightarrow> bool \<Rightarrow> unit run" where
  "debug_info_labeled fm label contents contents_newlined =
     call fm ''debug_info_labeled'' (with_arg (\<lambda>c. DebugInfoLabeled label c contents_newlined) contents)"

definition llm_call :: "formatter \<Rightarrow> py_error + string \<Rightarrow> unit run" where
  "llm_call fm text = call fm ''llm_call'' (with_arg LlmCall text)"

definition llm_output :: "formatter \<Rightarrow> py_error + string \<Rightarrow> unit run" where
  "llm_output fm text = call fm ''llm_output'' (with_arg LlmOutput text)"

definition tool_call :: "formatter \<Rightarrow> py_error + string \<Rightarrow> unit run" where
  "tool_call fm text = call fm ''tool_call'' (with_arg ToolCall text)"

definition tool_output :: "formatter \<Rightarrow> py_error + string \<Rightarrow> unit run" where
  "tool_output fm text = call fm ''tool_output'' (with_arg ToolOutput text)"

definition debug_error :: "formatter \<Rightarrow> string \<Rightarrow> unit run" where
  "debug_error fm text = call fm ''debug_error'' (Inr (DebugError text))"


section \<open>\<open>AllChainDetails\<close>\<close>

record AllChainDetails =
  debug_mode :: bool
  out :: formatter

definition AllChainDetails_init :: "bool \<Rightarrow> formatter \<Rightarrow> AllChainDetails" where
  "AllChainDetails_init dm fm = \<lparr>debug_mode = dm, out = fm\<rparr>"

text \<open>The defaults of \<open>__init__\<close>: \<open>debug_mode=False\<close>, \<open>out=OutputFormatter\<close>.\<close>

definition AllChainDetails_default :: AllChainDetails where
  "AllChainDetails_default = AllChainDetails_init False OutputFormatter"

text \<open>The body of \<open>__init__\<close> (lines 123-124): the two assignments.\<close>

definition init_body :: "bool \<Rightarrow> formatter \<Rightarrow> unit run" where
  "init_body dm fm = seqs [emit (SetDebugMode dm), emit (SetOut fm)]"

fun assign :: "effect \<Rightarrow> AllChainDetails \<Rightarrow> AllChainDetails" where
  "assign (SetDebugMode b) self = self\<lparr>debug_mode := b\<rparr>"
| "assign (SetOut fm) self = self\<lparr>out := fm\<rparr>"
| "assign e self = self"

definition assigned :: "effect list \<Rightarrow> AllChainDetails \<Rightarrow> AllChainDetails" where
  "assigned t self = fold assign t self"

definition NLNL :: string where "NLNL = NL @ NL"

definition on_text :: "AllChainDetails \<Rightarrow> pyval \<Rightarrow> kwargs \<Rightarrow> unit run" where
  "on_text self text kwargs =
     (if debug_mode self then seqs
        [heading (out self) (NLNL @ ''> Preparing text.''),
         debug_info_labeled (out self) ''Chain ID'' (fmt (kwargs_get kwargs ''run_id'')) False,
         debug_info_labeled (out self) ''Parent chain ID'' (fmt (kwargs_get kwargs ''parent_run_id'')) False,
         debug_info_labeled (out self) ''Arguments'' (Inr (kwargs_str kwargs)) False,
         emit (Print (py_str text))]
      else skip)"

definition on_llm_start :: "AllChainDetails \<Rightarrow> pyval \<Rightarrow> pyval \<Rightarrow> kwargs \<Rightarrow> unit run" where
  "on_llm_start self serialized prompts kwargs = seqs
     [heading (out self) (NLNL @ ''> Sending text to the LLM.''),
      key_info_labeled (out self) ''Chain ID'' (fmt (kwargs_get kwargs ''run_id'')) False,
      key_info_labeled (out self) ''Parent chain ID'' (fmt (kwargs_get kwargs ''parent_run_id'')) False,
      bind (eval (py_len prompts)) (\<lambda>n.
        if n > 1 then seqs
          [debug_error (out self) ''prompts has multiple items.'',
           debug_error (out self) ''Only outputting first item in prompts.'',
           if debug_mode self then seqs
             [debug_info_labeled (out self) ''Prompts'' (Inr (py_str prompts)) False,
              emit Breakpoint]
           else skip]
        else skip),
      key_info (out self) (Inr ''Text sent to LLM:''),
      llm_call (out self) (fmt (getitem_int prompts 0)),
      if debug_mode self then seqs
        [debug_info_labeled (out self) ''Arguments'' (Inr (kwargs_str kwargs)) False,
         debug_info_labeled (out self) ''serialized'' (Inr (py_str serialized)) False]
      else skip]"

definition on_llm_end :: "AllChainDetails \<Rightarrow> pyval \<Rightarrow> kwargs \<Rightarrow> unit run" where
  "on_llm_end self response kwargs = seqs
     [heading (out self) (NLNL @ ''> Received response from LLM.''),
      key_info_labeled (out self) ''Chain ID'' (fmt (kwargs_get kwargs ''run_id'')) False,
      key_info_labeled (out self) ''Parent chain ID'' (fmt (kwargs_get kwargs ''parent_run_id'')) False,
      bind (eval (sbind (py_getattr response ''generations'') py_len)) (\<lambda>n.
        if n > 1 then seqs
          [debug_error (out self) ''response object has multiple generations.'',
           debug_error (out self) ''Only outputting first generation in response.'',
           if debug_mode self then seqs
             [debug_info_labeled (out self) ''response'' (Inr (py_str response)) False,
              emit Breakpoint]
           else skip]
        else skip),
      key_info (out self) (Inr ''Text received from LLM:''),
      llm_output (out self)
        (fmt (sbind (py_getattr response ''generations'') (\<lambda>g.
              sbind (getitem_int g 0) (\<lambda>g0.
              sbind (getitem_int g0 0) (\<lambda>g00. py_getattr g00 ''text''))))),
      if debug_mode self then seqs
        [debug_info_labeled (out self) ''Arguments'' (Inr (kwargs_str kwargs)) False,
         debug_info_labeled (out self) ''response'' (Inr (py_str response)) False]
      else skip]"

text \<open>
  Lines 196-203 and 377-384 are the same statements: they warn when \<open>serialized\<close> has no
  \<open>"id"\<close> and bind \<open>class_name\<close>.
\<close>

definition class_name_of :: "AllChainDetails \<Rightarrow> pyval \<Rightarrow> string run" where
  "class_name_of self serialized =
     bind (eval (py_keys serialized)) (\<lambda>ks.
       if ''id'' \<notin> set ks then
         bind (seqs
           [debug_error (out self) ''Missing serialized['id']'',
            if debug_mode self then seqs
              [debug_info_labeled (out self) ''serialized'' (Inr (py_str serialized)) False,
               emit Breakpoint]
            else skip])
          (\<lambda>_. eval (Inr ''Unknown -- serialized['id'] is missing''))
       else eval (sbind (getitem_str serialized ''id'') (py_join ''.'')))"

definition print_input :: "AllChainDetails \<Rightarrow> string \<times> pyval \<Rightarrow> unit run" where
  "print_input self kv =
     (if fst kv \<notin> set [''stop'', ''agent_scratchpad'']
      then key_info_labeled (out self) (''   '' @ fst kv) (Inr (py_str (snd kv))) False
      else skip)"

definition on_chain_start :: "AllChainDetails \<Rightarrow> pyval \<Rightarrow> pyval \<Rightarrow> kwargs \<Rightarrow> unit run" where
  "on_chain_start self serialized inputs kwargs = seqs
     [heading (out self) (NLNL @ ''> Starting new chain.''),
      bind (class_name_of self serialized) (\<lambda>class_name. seqs
        [key_info_labeled (out self) ''Chain class'' (Inr class_name) False,
         key_info_labeled (out self) ''Chain ID'' (fmt (kwargs_get kwargs ''run_id'')) False,
         key_info_labeled (out self) ''Parent chain ID'' (fmt (kwargs_get kwargs ''parent_run_id'')) False]),
      bind (eval (py_len inputs)) (\<lambda>n.
        if n < 1 then seqs
          [call (out self) ''debug'' (Inr (Other ''debug.error'' ''Chain inputs is empty.'')),
           if debug_mode self then seqs
             [debug_info_labeled (out self) ''inputs'' (Inr (py_str inputs)) False,
              emit Breakpoint]
           else skip]
        else key_info (out self) (Inr ''Iterating through keys/values of chain inputs:'')),
      bind (eval (py_items inputs)) (\<lambda>kvs. seqs (map (print_input self) kvs)),
      if debug_mode self then seqs
        [debug_info_labeled (out self) ''Arguments'' (Inr (kwargs_str kwargs)) False,
         debug_info_labeled (out self) ''inputs'' (Inr (py_str inputs)) False,
         debug_info_labeled (out self) ''serialized'' (Inr (py_str serialized)) False]
      else skip]"

text \<open>
  In \<open>on_chain_end\<close> the name \<open>outputs_keys\<close> is bound in the \<open>else\<close> branch only, so
  the loop after the \<open>if\<close> raises \<open>UnboundLocalError\<close> when the first branch ran to its end.
\<close>

definition print_output :: "AllChainDetails \<Rightarrow> pyval \<Rightarrow> string \<Rightarrow> unit run" where
  "print_output self outputs key =
     key_info_labeled (out self) (''Output '' @ key) (fmt (getitem_str outputs key)) True"

definition on_chain_end :: "AllChainDetails \<Rightarrow> pyval \<Rightarrow> kwargs \<Rightarrow> unit run" where
  "on_chain_end self outputs kwargs = seqs
     [heading (out self) (NLNL @ ''> Ending chain.''),
      key_info_labeled (out self) ''Chain ID'' (fmt (kwargs_get kwargs ''run_id'')) False,
      key_info_labeled (out self) ''Parent chain ID'' (fmt (kwargs_get kwargs ''parent_run_id'')) False,
      bind (eval (py_len outputs)) (\<lambda>n.
        if n = 0 then seqs
          [call (out self) ''debug_errors'' (Inr (Other ''debug_errors'' ''No chain outputs.'')),
           if debug_mode self then seqs
             [debug_info_labeled (out self) ''outputs'' (Inr (py_str outputs)) False,
              emit Breakpoint]
           else skip,
           raise (UnboundLocalError ''outputs_keys'')]
        else bind (eval (py_keys outputs)) (\<lambda>outputs_keys.
          seqs (map (print_output self outputs) outputs_keys))),
      if debug_mode self then seqs
        [debug_info_labeled (out self) ''Arguments'' (Inr (kwargs_str kwargs)) False,
         debug_info_labeled (out self) ''outputs'' (Inr (py_str outputs)) False]
      else skip]"

definition on_tool_start :: "AllChainDetails \<Rightarrow> pyval \<Rightarrow> pyval \<Rightarrow> kwargs \<Rightarrow> unit run" where
  "on_tool_start self serialized input_str kwargs = seqs
     [heading (out self) (NLNL @ ''> Using tool.''),
      key_info_labeled (out self) ''Chain ID'' (fmt (kwargs_get kwargs ''run_id'')) False,
      key_info_labeled (out self) ''Parent chain ID'' (fmt (kwargs_get kwargs ''parent_run_id'')) False,
      key_info_labeled (out self) ''Tool name'' (fmt (getitem_str serialized ''name'')) False,
      key_info (out self) (Inr ''Query sent to tool:''),
      tool_call (out self) (Inr (py_str input_str)),
      if debug_mode self then seqs
        [debug_info_labeled (out self) ''Arguments'' (Inr (kwargs_str kwargs)) False,
         debug_info_labeled (out self) ''serialized'' (Inr (py_str serialized)) False]
      else skip]"

text \<open>
  \<open>locals()\<close> in \<open>on_tool_end\<close> at line 280: the parameters of the method; no other local
  name is bound in its body.
\<close>

definition on_tool_end_locals :: "string list" where
  "on_tool_end_locals =
     [''self'', ''output'', ''color'', ''observation_prefix'', ''llm_prefix'', ''kwargs'']"

definition on_tool_end ::
  "AllChainDetails \<Rightarrow> pyval \<Rightarrow> pyval \<Rightarrow> pyval \<Rightarrow> pyval \<Rightarrow> kwargs \<Rightarrow> unit run" where
  "on_tool_end self output color observation_prefix llm_prefix kwargs = seqs
     [heading (out self) (NLNL @ ''> Received tool output.''),
      key_info_labeled (out self) ''Chain ID'' (fmt (kwargs_get kwargs ''run_id'')) False,
      key_info_labeled (out self) ''Parent chain ID'' (fmt (kwargs_get kwargs ''parent_run_id'')) False,
      key_info_labeled (out self) ''Tool name'' (fmt (kwargs_get kwargs ''name'')) False,
      if ''output'' \<notin> set on_tool_end_locals then seqs
        [debug_error (out self) ''No tool output.'',
         if debug_mode self then emit Breakpoint else skip]
      else seqs
        [key_info (out self) (Inr ''Response from tool:''),
         tool_output (out self) (Inr (py_str output))],
      if debug_mode self then seqs
        [debug_info_labeled (out self) ''Arguments'' (Inr (kwargs_str kwargs)) False,
         debug_info_labeled (out self) ''observation_prefix'' (Inr (py_str observation_prefix)) False,
         debug_info_labeled (out self) ''llm_prefix'' (Inr (py_str llm_prefix)) False]
      else skip]"

definition on_agent_action :: "AllChainDetails \<Rightarrow> pyval \<Rightarrow> kwargs \<Rightarrow> unit run" where
  "on_agent_action self action kwargs = seqs
     [heading (out self) (NLNL @ ''> Agent taking an action.''),
      key_info_labeled (out self) ''Chain ID'' (fmt (kwargs_get kwargs ''run_id'')) False,
      key_info_labeled (out self) ''Parent chain ID'' (fmt (kwargs_get kwargs ''parent_run_id'')) False,
      if \<not> py_hasattr action ''log'' then seqs
        [debug_error (out self) ''No log in action.'',
         if debug_mode self then seqs
           [debug_info_labeled (out self) ''action'' (Inr (py_str action)) False,
            emit Breakpoint]
         else skip]
      else key_info_labeled (out self) ''Action log'' (fmt (py_getattr action ''log'')) True,
      if debug_mode self then seqs
        [debug_info_labeled (out self) ''Arguments'' (Inr (kwargs_str kwargs)) False,
         debug_info_labeled (out self) ''action'' (Inr (py_str action)) False]
      else skip]"

definition on_agent_finish :: "AllChainDetails \<Rightarrow> pyval \<Rightarrow> kwargs \<Rightarrow> unit run" where
  "on_agent_finish self finish kwargs = seqs
     [heading (out self) (NLNL @ ''> Agent has finished.''),
      key_info_labeled (out self) ''Chain ID'' (fmt (kwargs_get kwargs ''run_id'')) False,
      key_info_labeled (out self) ''Parent chain ID'' (fmt (kwargs_get kwargs ''parent_run_id'')) False,
      if \<not> py_hasattr finish ''log'' then seqs
        [debug_error (out self) ''No log in action finish.'',
         if debug_mode self then emit Breakpoint else skip]
      else key_info_labeled (out self) ''Action finish log'' (fmt (py_getattr finish ''log'')) True,
      if debug_mode self then seqs
        [debug_info_labeled (out self) ''Arguments'' (Inr (kwargs_str kwargs)) False,
         debug_info_labeled (out self) ''finish'' (Inr (py_str finish)) False]
      else skip]"

definition on_llm_error :: "AllChainDetails \<Rightarrow> pyval \<Rightarrow> kwargs \<Rightarrow> unit run" where
  "on_llm_error self error kwargs = seqs
     [debug_error (out self) ''LLM Error'',
      debug_info_labeled (out self) ''Error object'' (Inr (py_str error)) False,
      if debug_mode self then emit Breakpoint else skip]"

definition on_chain_error :: "AllChainDetails \<Rightarrow> pyval \<Rightarrow> kwargs \<Rightarrow> unit run" where
  "on_chain_error self error kwargs = seqs
     [debug_error (out self) ''Chain Error'',
      debug_info_labeled (out self) ''Error object'' (Inr (py_str error)) False,
      if debug_mode self then emit Breakpoint else skip]"

definition on_tool_error :: "AllChainDetails \<Rightarrow> pyval \<Rightarrow> kwargs \<Rightarrow> unit run" where
  "on_tool_error self error kwargs = seqs
     [debug_error (out self) ''Chain Error'',
      debug_info_labeled (out self) ''Error object'' (Inr (py_str error)) False,
      if debug_mode self then emit Breakpoint else skip]"

definition on_retriever_start ::
  "AllChainDetails \<Rightarrow> pyval \<Rightarrow> pyval \<Rightarrow> pyval \<Rightarrow> pyval \<Rightarrow> pyval \<Rightarrow> pyval \<Rightarrow> kwargs \<Rightarrow> unit run" where
  "on_retriever_start self serialized query run_id parent_run_id tags metadata kwargs = seqs
     [heading (out self) (NLNL @ ''> Querying retriever.''),
      key_info_labeled (out self) ''Chain ID'' (Inr (py_str run_id)) False,
      key_info_labeled (out self) ''Parent chain ID'' (Inr (py_str parent_run_id)) False,
      key_info_labeled (out self) ''Tags'' (Inr (py_str tags)) False,
      bind (class_name_of self serialized) (\<lambda>class_name.
        key_info_labeled (out self) ''Retriever class'' (Inr class_name) False),
      key_info (out self) (Inr ''Query sent to retriever:''),
      tool_call (out self) (Inr (py_str query)),
      if debug_mode self then seqs
        [debug_info_labeled (out self) ''Arguments'' (Inr (kwargs_str kwargs)) False,
         debug_info_labeled (out self) ''metadata'' (Inr (py_str metadata)) False,
         debug_info_labeled (out self) ''serialized'' (Inr (py_str serialized)) False]
      else skip]"

definition print_document :: "AllChainDetails \<Rightarrow> nat \<Rightarrow> nat \<times> pyval \<Rightarrow> unit run" where
  "print_document self n numbered = seqs
     [key_info (out self) (Inr ''---------------------------------------------------''),
      key_info (out self) (Inr (''Document number '' @ nat_str (fst numbered) @ '' of '' @ nat_str n)),
      key_info_labeled (out self) ''Metadata'' (fmt (py_getattr (snd numbered) ''metadata'')) False,
      key_info (out self) (Inr ''Document contents:''),
      tool_output (out self) (fmt (py_getattr (snd numbered) ''page_content''))]"

definition on_retriever_end ::
  "AllChainDetails \<Rightarrow> pyval \<Rightarrow> pyval \<Rightarrow> pyval \<Rightarrow> kwargs \<Rightarrow> unit run" where
  "on_retriever_end self documents run_id parent_run_id kwargs = seqs
     [heading (out self) (NLNL @ ''> Retriever finished.''),
      key_info_labeled (out self) ''Chain ID'' (Inr (py_str run_id)) False,
      key_info_labeled (out self) ''Parent chain ID'' (Inr (py_str parent_run_id)) False,
      key_info (out self)
        (sbind (py_len documents) (\<lambda>n. Inr (''Found '' @ nat_str n @ '' documents.''))),
      bind (eval (py_len documents)) (\<lambda>n.
        if n = 0 then seqs
          [debug_error (out self) ''No documents found.'',
           if debug_mode self then emit Breakpoint else skip]
        else bind (eval (py_iter documents)) (\<lambda>docs.
          seqs (map (print_document self n) (enumerate 0 docs))))]"


section \<open>Events and their delivery\<close>

text \<open>
  One constructor per callback, holding the arguments the framework passes. The reporter
  after a call is the reporter the call was made on, with the assignments of the run made.
\<close>

datatype event =
    OnText pyval kwargs
  | OnLlmStart pyval pyval kwargs
  | OnLlmEnd pyval kwargs
  | OnChainStart pyval pyval kwargs
  | OnChainEnd pyval kwargs
  | OnToolStart pyval pyval kwargs
  | OnToolEnd pyval pyval pyval pyval kwargs
  | OnAgentAction pyval kwargs
  | OnAgentFinish pyval kwargs
  | OnLlmError pyval kwargs
  | OnChainError pyval kwargs
  | OnToolError pyval kwargs
  | OnRetrieverStart pyval pyval pyval pyval pyval pyval kwargs
  | OnRetrieverEnd pyval pyval pyval kwargs

fun handle :: "AllChainDetails \<Rightarrow> event \<Rightarrow> unit run" where
  "handle self (OnText text kw) = on_text self text kw"
| "handle self (OnLlmStart serialized prompts kw) = on_llm_start self serialized prompts kw"
| "handle self (OnLlmEnd response kw) = on_llm_end self response kw"
| "handle self (OnChainStart serialized inputs kw) = on_chain_start self serialized inputs kw"
| "handle self (OnChainEnd outputs kw) = on_chain_end self outputs kw"
| "handle self (OnToolStart serialized input_str kw) = on_tool_start self serialized input_str kw"
| "handle self (OnToolEnd output color observation_prefix llm_prefix kw) =
     on_tool_end self output color observation_prefix llm_prefix kw"
| "handle self (OnAgentAction action kw) = on_agent_action self action kw"
| "handle self (OnAgentFinish finish kw) = on_agent_finish self finish kw"
| "handle self (OnLlmError error kw) = on_llm_error self error kw"
| "handle self (OnChainError error kw) = on_chain_error self error kw"
| "handle self (OnToolError error kw) = on_tool_error self error kw"
| "handle self (OnRetrieverStart serialized query run_id parent_run_id tags metadata kw) =
     on_retriever_start self serialized query run_id parent_run_id tags metadata kw"
| "handle self (OnRetrieverEnd documents run_id parent_run_id kw) =
     on_retriever_end self documents run_id parent_run_id kw"

definition invoke :: "AllChainDetails \<Rightarrow> event \<Rightarrow> unit run \<times> AllChainDetails" where
  "invoke self ev = (handle self ev, assigned (trace (handle self ev)) self)"

text \<open>The same event delivered twice to one reporter: both runs and the reporter left.\<close>

definition invoke_twice ::
  "AllChainDetails \<Rightarrow> event \<Rightarrow> unit run \<times> unit run \<times> AllChainDetails" where
  "invoke_twice self ev =
     (case invoke self ev of (r1, self1) \<Rightarrow>
        (case invoke self1 ev of (r2, self2) \<Rightarrow> (r1, r2, self2)))"

section \<open>Properties of a run\<close>

fun is_assignment :: "effect \<Rightarrow> bool" where
  "is_assignment (SetDebugMode b) = True"
| "is_assignment (SetOut fm) = True"
| "is_assignment e = False"

fun is_Heading :: "effect \<Rightarrow> bool" where
  "is_Heading (Heading text) = True"
| "is_Heading e = False"

definition id_line :: "string \<Rightarrow> string \<Rightarrow> effect \<Rightarrow> bool" where
  "id_line label ident e =
     (e = KeyInfoLabeled label ident False \<or> e = DebugInfoLabeled label ident False)"

text \<open>
  The output opens with the heading \<open>h\<close>, then the line of the run identifier, then the
  line of the parent run identifier, and no other heading follows.
\<close>

fun opens_with_heading_and_ids :: "string \<Rightarrow> string \<Rightarrow> string \<Rightarrow> effect list \<Rightarrow> bool" where
  "opens_with_heading_and_ids h rid prid (e # a # b # rest) =
     (e = Heading h \<and> id_line ''Chain ID'' rid a \<and> id_line ''Parent chain ID'' prid b
      \<and> list_all (\<lambda>e. \<not> is_Heading e) rest)"
| "opens_with_heading_and_ids h rid prid t = False"

definition effects_all :: "(effect \<Rightarrow> bool) \<Rightarrow> 'a run \<Rightarrow> bool" where
  "effects_all P r = list_all P (trace r)"

text \<open>A line of the key/value list of chain inputs that shows one of the two noise keys.\<close>

fun prints_noise_key :: "effect \<Rightarrow> bool" where
  "prints_noise_key (KeyInfoLabeled label contents contents_newlined) =
     (label \<in> set [''   stop'', ''   agent_scratchpad''])"
| "prints_noise_key e = False"

definition input_line :: "string \<times> pyval \<Rightarrow> effect" where
  "input_line kv = KeyInfoLabeled (''   '' @ fst kv) (py_str (snd kv)) False"

definition output_line :: "effect \<Rightarrow> bool" where
  "output_line e = (case e of KeyInfoLabeled label c n \<Rightarrow> take 7 label = ''Output '' | _ \<Rightarrow> False)"

definition warning_line :: "effect \<Rightarrow> bool" where
  "warning_line e = (case e of DebugError text \<Rightarrow> True | _ \<Rightarrow> False)"

fun document_number_line :: "effect \<Rightarrow> bool" where
  "document_number_line (KeyInfo text) = (take 16 text = ''Document number '')"
| "document_number_line e = False"

section \<open>Rules for runs\<close>

declare splitlines_from.simps [simp del]

lemmas run_defs = emit_def raise_def skip_def eval_def bind_def trace_def raised_def
  returns_normally_def








lemma trace_seqs_Cons:
  "trace (seqs (s # ss)) = trace s @ (case snd s of Inl e \<Rightarrow> [] | Inr x \<Rightarrow> trace (seqs ss))"
  by (cases s) (simp add: run_defs split: sum.splits prod.splits)

lemma trace_bind:
  "trace (bind m f) = trace m @ (case snd m of Inl e \<Rightarrow> [] | Inr x \<Rightarrow> trace (f x))"
  by (cases m) (simp add: run_defs split: prod.splits sum.splits)

lemma take_prefix: "xs = pre @ rest \<Longrightarrow> n = length pre \<Longrightarrow> take n xs = pre"
  by simp

subsection \<open>The default formatter and the values\<close>

lemma OutputFormatter_attrs:
  "''heading'' \<in> set (class_attrs OutputFormatter)"
  "''key_info'' \<in> set (class_attrs OutputFormatter)"
  "''key_info_labeled'' \<in> set (class_attrs OutputFormatter)"
  "''debug_info'' \<in> set (class_attrs OutputFormatter)"
  "''debug_info_labeled'' \<in> set (class_attrs OutputFormatter)"
  "''llm_call'' \<in> set (class_attrs OutputFormatter)"
  "''llm_output'' \<in> set (class_attrs OutputFormatter)"
  "''tool_call'' \<in> set (class_attrs OutputFormatter)"
  "''tool_output'' \<in> set (class_attrs OutputFormatter)"
  "''debug_error'' \<in> set (class_attrs OutputFormatter)"
  "''debug'' \<notin> set (class_attrs OutputFormatter)"
  "''debug_errors'' \<notin> set (class_attrs OutputFormatter)"
  by (simp_all add: OutputFormatter_def)

lemma OutputFormatter_calls:
  "heading OutputFormatter t = emit (Heading t)"
  "debug_error OutputFormatter t = emit (DebugError t)"
  "key_info OutputFormatter (Inr t) = emit (KeyInfo t)"
  "key_info OutputFormatter (Inl e) = raise e"
  "key_info_labeled OutputFormatter l (Inr t) n = emit (KeyInfoLabeled l t n)"
  "key_info_labeled OutputFormatter l (Inl e) n = raise e"
  "debug_info_labeled OutputFormatter l (Inr t) n = emit (DebugInfoLabeled l t n)"
  "debug_info_labeled OutputFormatter l (Inl e) n = raise e"
  "llm_call OutputFormatter (Inr t) = emit (LlmCall t)"
  "llm_call OutputFormatter (Inl e) = raise e"
  "llm_output OutputFormatter (Inr t) = emit (LlmOutput t)"
  "llm_output OutputFormatter (Inl e) = raise e"
  "tool_call OutputFormatter (Inr t) = emit (ToolCall t)"
  "tool_call OutputFormatter (Inl e) = raise e"
  "tool_output OutputFormatter (Inr t) = emit (ToolOutput t)"
  "tool_output OutputFormatter (Inl e) = raise e"
  "call OutputFormatter ''debug'' x = raise (AttributeError ''debug'')"
  "call OutputFormatter ''debug_errors'' x = raise (AttributeError ''debug_errors'')"
  by (simp_all add: heading_def debug_error_def key_info_def key_info_labeled_def
      debug_info_labeled_def llm_call_def llm_output_def tool_call_def tool_output_def
      call_def with_arg_def OutputFormatter_attrs)

lemma self_fields:
  "debug_mode (AllChainDetails_init dm fm) = dm"
  "out (AllChainDetails_init dm fm) = fm"
  by (simp_all add: AllChainDetails_init_def)

lemma kwargs_get_Some: "map_of kw k = Some v \<Longrightarrow> fmt (kwargs_get kw k) = Inr (py_str v)"
  by (simp add: fmt_def kwargs_get_def getitem_str_def)

lemma kwargs_get_None: "map_of kw k = None \<Longrightarrow> fmt (kwargs_get kw k) = Inl (KeyError k)"
  by (simp add: fmt_def kwargs_get_def getitem_str_def)

lemmas run_simps = run_defs OutputFormatter_calls self_fields kwargs_get_Some kwargs_get_None

lemma fmt_simps: "fmt (Inr v) = Inr (py_str v)" "fmt (Inl e) = Inl e"
  by (simp_all add: fmt_def)

lemma sbind_simps: "sbind (Inr v) f = f v" "sbind (Inl e) f = Inl e"
  by (simp_all add: sbind_def)

lemma nat_str_small:
  "nat_str 0 = ''0''" "nat_str (Suc 0) = ''1''" "nat_str 1 = ''1''" "nat_str 2 = ''2''"
  "nat_str (Suc (Suc 0)) = ''2''"
  by code_simp+

lemma py_str_simps:
  "py_str (PStr s) = s" "py_str (PObj s r attrs) = s" "py_str PNone = ''None''"
  by (simp_all add: py_str_def)

lemma py_str_a_b: "py_str (PList [PStr ''a'', PStr ''b'']) = ''['a', 'b']''"
  by code_simp

lemmas val_simps = fmt_simps sbind_simps py_str_simps


lemma the_strs_map_PStr: "the_strs (map PStr comps) = Inr comps"
  by (induction comps) simp_all

subsection \<open>A property of every effect of a run\<close>

lemma effects_all_basic:
  "effects_all P skip"
  "effects_all P (raise e)"
  "effects_all P (eval x)"
  "effects_all P (emit c) = P c"
  by (simp_all add: effects_all_def run_defs)

lemma effects_all_bind:
  "effects_all P m \<Longrightarrow> (\<And>x. effects_all P (f x)) \<Longrightarrow> effects_all P (bind m f)"
proof -
  assume m: "effects_all P m" and f: "\<And>x. effects_all P (f x)"
  obtain t r where mr: "m = (t, r)" by (cases m)
  show ?thesis
  proof (cases r)
    case (Inl e)
    with m mr show ?thesis by (simp add: effects_all_def run_defs)
  next
    case (Inr x)
    obtain t' r' where fx: "f x = (t', r')" by (cases "f x")
    from f [of x] fx have "list_all P t'" by (simp add: effects_all_def run_defs)
    with m mr Inr fx show ?thesis by (simp add: effects_all_def run_defs)
  qed
qed

lemma effects_all_call:
  "(\<And>c. arg = Inr c \<Longrightarrow> P c) \<Longrightarrow> effects_all P (call fm name arg)"
  by (auto simp: call_def effects_all_basic split: sum.splits)

lemma effects_all_methods:
  "P (Heading t) \<Longrightarrow> effects_all P (heading fm t)"
  "P (DebugError t) \<Longrightarrow> effects_all P (debug_error fm t)"
  "(\<And>t. P (KeyInfo t)) \<Longrightarrow> effects_all P (key_info fm x)"
  "(\<And>t. P (KeyInfoLabeled l t n)) \<Longrightarrow> effects_all P (key_info_labeled fm l y n)"
  "(\<And>t. P (DebugInfoLabeled l t n)) \<Longrightarrow> effects_all P (debug_info_labeled fm l y n)"
  "(\<And>t. P (LlmCall t)) \<Longrightarrow> effects_all P (llm_call fm x)"
  "(\<And>t. P (LlmOutput t)) \<Longrightarrow> effects_all P (llm_output fm x)"
  "(\<And>t. P (ToolCall t)) \<Longrightarrow> effects_all P (tool_call fm x)"
  "(\<And>t. P (ToolOutput t)) \<Longrightarrow> effects_all P (tool_output fm x)"
  by (auto simp: heading_def debug_error_def key_info_def key_info_labeled_def
      debug_info_labeled_def llm_call_def llm_output_def tool_call_def tool_output_def
      with_arg_def intro!: effects_all_call split: sum.splits)

lemma effects_all_if:
  "(c \<Longrightarrow> effects_all P a) \<Longrightarrow> (\<not> c \<Longrightarrow> effects_all P b) \<Longrightarrow> effects_all P (if c then a else b)"
  by simp

lemma effects_all_seqs_Nil: "effects_all P (seqs [])"
  by (simp add: effects_all_basic)

lemma effects_all_seqs_Cons:
  "effects_all P s \<Longrightarrow> effects_all P (seqs ss) \<Longrightarrow> effects_all P (seqs (s # ss))"
  by (simp add: effects_all_bind)

lemma effects_all_seqs_map: "(\<And>x. effects_all P (f x)) \<Longrightarrow> effects_all P (seqs (map f xs))"
  by (induction xs) (simp_all add: effects_all_basic effects_all_bind)

lemma effects_all_emit: "P c \<Longrightarrow> effects_all P (emit c)"
  by (simp add: effects_all_basic)

lemmas effects_all_rules = effects_all_seqs_Nil effects_all_seqs_Cons effects_all_seqs_map
  effects_all_bind effects_all_if effects_all_emit effects_all_basic(1-3) effects_all_methods
  effects_all_call

section \<open>The runs of the handlers\<close>

lemma class_name_of_missing:
  assumes "map_of sd ''id'' = None"
  shows "class_name_of (AllChainDetails_init dm OutputFormatter) (PDict sd) =
     ([DebugError ''Missing serialized['id']'']
        @ (if dm then [DebugInfoLabeled ''serialized'' (py_str (PDict sd)) False, Breakpoint] else []),
      Inr ''Unknown -- serialized['id'] is missing'')"
proof -
  from assms have "''id'' \<notin> set (map fst sd)"
    by (simp add: map_of_eq_None_iff)
  then show ?thesis
    by (simp add: class_name_of_def py_keys_def run_simps)
qed

lemma class_name_of_present:
  assumes "map_of sd ''id'' = Some (PList (map PStr comps))"
  shows "class_name_of self (PDict sd) = ([], Inr (join ''.'' comps))"
proof -
  from assms have "''id'' \<in> set (map fst sd)"
    by (metis map_of_eq_None_iff option.distinct(1) set_map)
  with assms show ?thesis
    by (simp add: class_name_of_def py_keys_def run_defs getitem_str_def py_join_def py_iter_def
        the_strs_map_PStr val_simps)
qed

lemma on_chain_start_prefix:
  assumes "class_name_of (AllChainDetails_init dm OutputFormatter) serialized = (ct, Inr cn)"
  shows "take (Suc (Suc (length ct)))
           (trace (on_chain_start (AllChainDetails_init dm OutputFormatter) serialized inputs kw)) =
         Heading (NLNL @ ''> Starting new chain.'') # ct @ [KeyInfoLabeled ''Chain class'' cn False]"
  using assms
  by (simp add: on_chain_start_def trace_seqs_Cons trace_bind OutputFormatter_calls self_fields
      trace_def [of "(x, y)" for x y] emit_def del: seqs.simps)

lemma on_chain_start_prefix_ids:
  assumes "class_name_of (AllChainDetails_init dm OutputFormatter) serialized = (ct, Inr cn)"
    and "map_of kw ''run_id'' = Some rid" and "map_of kw ''parent_run_id'' = Some prid"
  shows "take (length ct + 4)
           (trace (on_chain_start (AllChainDetails_init dm OutputFormatter) serialized inputs kw)) =
         Heading (NLNL @ ''> Starting new chain.'') # ct
         @ [KeyInfoLabeled ''Chain class'' cn False,
            KeyInfoLabeled ''Chain ID'' (py_str rid) False,
            KeyInfoLabeled ''Parent chain ID'' (py_str prid) False]"
proof -
  have "\<exists>rest. trace (on_chain_start (AllChainDetails_init dm OutputFormatter) serialized inputs kw) =
      (Heading (NLNL @ ''> Starting new chain.'') # ct
         @ [KeyInfoLabeled ''Chain class'' cn False,
            KeyInfoLabeled ''Chain ID'' (py_str rid) False,
            KeyInfoLabeled ''Parent chain ID'' (py_str prid) False]) @ rest"
    using assms
    by (simp add: on_chain_start_def trace_seqs_Cons trace_bind OutputFormatter_calls self_fields
        kwargs_get_Some trace_def [of "(x, y)" for x y] emit_def del: seqs.simps)
  then obtain rest where
    "trace (on_chain_start (AllChainDetails_init dm OutputFormatter) serialized inputs kw) =
      (Heading (NLNL @ ''> Starting new chain.'') # ct
         @ [KeyInfoLabeled ''Chain class'' cn False,
            KeyInfoLabeled ''Chain ID'' (py_str rid) False,
            KeyInfoLabeled ''Parent chain ID'' (py_str prid) False]) @ rest" ..
  then show ?thesis
    by (rule take_prefix) simp
qed

lemma seqs_print_inputs:
  "seqs (map (print_input (AllChainDetails_init dm OutputFormatter)) kvs) =
     (map input_line (filter (\<lambda>kv. fst kv \<notin> set [''stop'', ''agent_scratchpad'']) kvs), Inr ())"
  by (induction kvs) (simp_all add: print_input_def input_line_def run_simps)

lemma on_chain_start_run:
  assumes "class_name_of (AllChainDetails_init dm OutputFormatter) serialized = (ct, Inr cn)"
    and "map_of kw ''run_id'' = Some rid" and "map_of kw ''parent_run_id'' = Some prid"
    and "kvs \<noteq> []"
  shows "on_chain_start (AllChainDetails_init dm OutputFormatter) serialized (PDict kvs) kw =
     (Heading (NLNL @ ''> Starting new chain.'') # ct
      @ [KeyInfoLabeled ''Chain class'' cn False,
         KeyInfoLabeled ''Chain ID'' (py_str rid) False,
         KeyInfoLabeled ''Parent chain ID'' (py_str prid) False,
         KeyInfo ''Iterating through keys/values of chain inputs:'']
      @ map input_line (filter (\<lambda>kv. fst kv \<notin> set [''stop'', ''agent_scratchpad'']) kvs)
      @ (if dm then
           [DebugInfoLabeled ''Arguments'' (kwargs_str kw) False,
            DebugInfoLabeled ''inputs'' (py_str (PDict kvs)) False,
            DebugInfoLabeled ''serialized'' (py_str serialized) False]
         else []),
      Inr ())"
proof -
  from assms(4) have len: "\<not> length kvs < Suc 0" by (cases kvs) simp_all
  show ?thesis
    using assms(1-3) len
    by (simp add: on_chain_start_def seqs_print_inputs py_len_def py_items_def run_simps
        del: seqs.simps)
       (simp add: run_defs)
qed

lemma on_retriever_start_run:
  assumes "class_name_of (AllChainDetails_init dm OutputFormatter) serialized = (ct, Inr cn)"
  shows "on_retriever_start (AllChainDetails_init dm OutputFormatter) serialized query run_id
           parent_run_id tags metadata kw =
         ([Heading (NLNL @ ''> Querying retriever.''),
           KeyInfoLabeled ''Chain ID'' (py_str run_id) False,
           KeyInfoLabeled ''Parent chain ID'' (py_str parent_run_id) False,
           KeyInfoLabeled ''Tags'' (py_str tags) False]
          @ ct
          @ [KeyInfoLabeled ''Retriever class'' cn False,
             KeyInfo ''Query sent to retriever:'',
             ToolCall (py_str query)]
          @ (if dm then
               [DebugInfoLabeled ''Arguments'' (kwargs_str kw) False,
                DebugInfoLabeled ''metadata'' (py_str metadata) False,
                DebugInfoLabeled ''serialized'' (py_str serialized) False]
             else []),
          Inr ())"
  using assms by (simp add: on_retriever_start_def run_simps)

lemma error_handler_runs:
  "on_llm_error (AllChainDetails_init dm OutputFormatter) error kw =
     ([DebugError ''LLM Error'', DebugInfoLabeled ''Error object'' (py_str error) False]
        @ (if dm then [Breakpoint] else []), Inr ())"
  "on_chain_error (AllChainDetails_init dm OutputFormatter) error kw =
     ([DebugError ''Chain Error'', DebugInfoLabeled ''Error object'' (py_str error) False]
        @ (if dm then [Breakpoint] else []), Inr ())"
  "on_tool_error (AllChainDetails_init dm OutputFormatter) error kw =
     ([DebugError ''Chain Error'', DebugInfoLabeled ''Error object'' (py_str error) False]
        @ (if dm then [Breakpoint] else []), Inr ())"
  by (simp_all add: on_llm_error_def on_chain_error_def on_tool_error_def run_simps)

lemma on_text_silent: "on_text (AllChainDetails_init False fm) text kw = ([], Inr ())"
  by (simp add: on_text_def run_simps)

subsection \<open>Lines that are never written\<close>

lemma on_tool_end_no_warning:
  "effects_all (\<lambda>e. e \<noteq> DebugError ''No tool output.'') (on_tool_end self output color op lp kw)"
  unfolding on_tool_end_def
  by (intro effects_all_rules; simp add: on_tool_end_locals_def)

lemma print_input_no_noise:
  "effects_all (\<lambda>e. \<not> prints_noise_key e) (print_input self kv)"
  unfolding print_input_def
  by (intro effects_all_rules; simp)

lemma class_name_of_no_noise:
  "effects_all (\<lambda>e. \<not> prints_noise_key e) (class_name_of self serialized)"
  unfolding class_name_of_def
  by (intro effects_all_rules; simp)

lemma on_chain_start_no_noise:
  "effects_all (\<lambda>e. \<not> prints_noise_key e) (on_chain_start self serialized inputs kw)"
  unfolding on_chain_start_def
  by (intro effects_all_rules class_name_of_no_noise print_input_no_noise; auto)

subsection \<open>Heading and identifiers first\<close>

lemma opens_seqs:
  assumes "id_line ''Chain ID'' rid a" and "id_line ''Parent chain ID'' prid b"
    and "effects_all (\<lambda>e. \<not> is_Heading e) (seqs ss)"
  shows "opens_with_heading_and_ids h rid prid
           (trace (seqs (emit (Heading h) # emit a # emit b # ss)))"
proof -
  obtain t r where s: "seqs ss = (t, r)" by (cases "seqs ss")
  with assms show ?thesis
    by (simp add: run_defs effects_all_def)
qed

lemma id_line_simps:
  "id_line l i (KeyInfoLabeled l i False)" "id_line l i (DebugInfoLabeled l i False)"
  by (simp_all add: id_line_def)

lemma no_heading_parts:
  "effects_all (\<lambda>e. \<not> is_Heading e) (class_name_of self serialized)"
  "effects_all (\<lambda>e. \<not> is_Heading e) (print_input self kv)"
  "effects_all (\<lambda>e. \<not> is_Heading e) (print_output self outputs key)"
  "effects_all (\<lambda>e. \<not> is_Heading e) (print_document self n numbered)"
  unfolding class_name_of_def print_input_def print_output_def print_document_def
  by (intro effects_all_rules; simp)+

lemma on_llm_start_opens:
  assumes "map_of kw ''run_id'' = Some rid" and "map_of kw ''parent_run_id'' = Some prid"
  shows "opens_with_heading_and_ids (NLNL @ ''> Sending text to the LLM.'') (py_str rid) (py_str prid)
     (trace (on_llm_start (AllChainDetails_init dm OutputFormatter) serialized prompts kw))"
  unfolding on_llm_start_def self_fields OutputFormatter_calls kwargs_get_Some [OF assms(1)]
    kwargs_get_Some [OF assms(2)]
  by (rule opens_seqs, simp add: id_line_simps, simp add: id_line_simps)
     (intro effects_all_rules no_heading_parts; simp)

lemma on_llm_end_opens:
  assumes "map_of kw ''run_id'' = Some rid" and "map_of kw ''parent_run_id'' = Some prid"
  shows "opens_with_heading_and_ids (NLNL @ ''> Received response from LLM.'') (py_str rid) (py_str prid)
     (trace (on_llm_end (AllChainDetails_init dm OutputFormatter) response kw))"
  unfolding on_llm_end_def self_fields OutputFormatter_calls kwargs_get_Some [OF assms(1)]
    kwargs_get_Some [OF assms(2)]
  by (rule opens_seqs, simp add: id_line_simps, simp add: id_line_simps)
     (intro effects_all_rules no_heading_parts; simp)

lemma on_chain_end_opens:
  assumes "map_of kw ''run_id'' = Some rid" and "map_of kw ''parent_run_id'' = Some prid"
  shows "opens_with_heading_and_ids (NLNL @ ''> Ending chain.'') (py_str rid) (py_str prid)
     (trace (on_chain_end (AllChainDetails_init dm OutputFormatter) outputs kw))"
  unfolding on_chain_end_def self_fields OutputFormatter_calls kwargs_get_Some [OF assms(1)]
    kwargs_get_Some [OF assms(2)]
  by (rule opens_seqs, simp add: id_line_simps, simp add: id_line_simps)
     (intro effects_all_rules no_heading_parts; simp)

lemma on_tool_start_opens:
  assumes "map_of kw ''run_id'' = Some rid" and "map_of kw ''parent_run_id'' = Some prid"
  shows "opens_with_heading_and_ids (NLNL @ ''> Using tool.'') (py_str rid) (py_str prid)
     (trace (on_tool_start (AllChainDetails_init dm OutputFormatter) serialized input_str kw))"
  unfolding on_tool_start_def self_fields OutputFormatter_calls kwargs_get_Some [OF assms(1)]
    kwargs_get_Some [OF assms(2)]
  by (rule opens_seqs, simp add: id_line_simps, simp add: id_line_simps)
     (intro effects_all_rules no_heading_parts; simp)

lemma on_tool_end_opens:
  assumes "map_of kw ''run_id'' = Some rid" and "map_of kw ''parent_run_id'' = Some prid"
  shows "opens_with_heading_and_ids (NLNL @ ''> Received tool output.'') (py_str rid) (py_str prid)
     (trace (on_tool_end (AllChainDetails_init dm OutputFormatter) tool_out color op lp kw))"
  unfolding on_tool_end_def self_fields OutputFormatter_calls kwargs_get_Some [OF assms(1)]
    kwargs_get_Some [OF assms(2)]
  by (rule opens_seqs, simp add: id_line_simps, simp add: id_line_simps)
     (intro effects_all_rules no_heading_parts; simp)

lemma on_agent_action_opens:
  assumes "map_of kw ''run_id'' = Some rid" and "map_of kw ''parent_run_id'' = Some prid"
  shows "opens_with_heading_and_ids (NLNL @ ''> Agent taking an action.'') (py_str rid) (py_str prid)
     (trace (on_agent_action (AllChainDetails_init dm OutputFormatter) action kw))"
  unfolding on_agent_action_def self_fields OutputFormatter_calls kwargs_get_Some [OF assms(1)]
    kwargs_get_Some [OF assms(2)]
  by (rule opens_seqs, simp add: id_line_simps, simp add: id_line_simps)
     (intro effects_all_rules no_heading_parts; simp)

lemma on_agent_finish_opens:
  assumes "map_of kw ''run_id'' = Some rid" and "map_of kw ''parent_run_id'' = Some prid"
  shows "opens_with_heading_and_ids (NLNL @ ''> Agent has finished.'') (py_str rid) (py_str prid)
     (trace (on_agent_finish (AllChainDetails_init dm OutputFormatter) finish kw))"
  unfolding on_agent_finish_def self_fields OutputFormatter_calls kwargs_get_Some [OF assms(1)]
    kwargs_get_Some [OF assms(2)]
  by (rule opens_seqs, simp add: id_line_simps, simp add: id_line_simps)
     (intro effects_all_rules no_heading_parts; simp)

lemma on_retriever_start_opens:
  "opens_with_heading_and_ids (NLNL @ ''> Querying retriever.'') (py_str run_id) (py_str parent_run_id)
     (trace (on_retriever_start (AllChainDetails_init dm OutputFormatter) serialized query run_id
        parent_run_id tags metadata kw))"
  unfolding on_retriever_start_def self_fields OutputFormatter_calls
  by (rule opens_seqs, simp add: id_line_simps, simp add: id_line_simps)
     (intro effects_all_rules no_heading_parts; simp)

lemma on_retriever_end_opens:
  "opens_with_heading_and_ids (NLNL @ ''> Retriever finished.'') (py_str run_id) (py_str parent_run_id)
     (trace (on_retriever_end (AllChainDetails_init dm OutputFormatter) documents run_id
        parent_run_id kw))"
  unfolding on_retriever_end_def self_fields OutputFormatter_calls
  by (rule opens_seqs, simp add: id_line_simps, simp add: id_line_simps)
     (intro effects_all_rules no_heading_parts; simp)

lemma on_text_opens:
  assumes "map_of kw ''run_id'' = Some rid" and "map_of kw ''parent_run_id'' = Some prid"
  shows "opens_with_heading_and_ids (NLNL @ ''> Preparing text.'') (py_str rid) (py_str prid)
     (trace (on_text (AllChainDetails_init True OutputFormatter) text kw))"
  using assms by (simp add: on_text_def run_simps id_line_simps)

subsection \<open>Normal return\<close>















subsection \<open>The empty mappings\<close>

text \<open>
  The empty-inputs branch of \<open>on_chain_start\<close> (line 210) calls \<open>self.out.debug.error\<close>:
  with the default formatter the handler raises there, after the heading, the class line
  and the identifier lines.
\<close>

lemma on_chain_start_empty_inputs_raises:
  "on_chain_start AllChainDetails_default
      (PDict [(''id'', PList [PStr ''langchain'', PStr ''chains'', PStr ''LLMChain''])])
      (PDict []) [(''run_id'', PStr ''r1''), (''parent_run_id'', PNone)] =
     ([Heading (NLNL @ ''> Starting new chain.''),
       KeyInfoLabeled ''Chain class'' ''langchain.chains.LLMChain'' False,
       KeyInfoLabeled ''Chain ID'' ''r1'' False,
       KeyInfoLabeled ''Parent chain ID'' ''None'' False],
      Inl (AttributeError ''debug''))"
  by (simp add: on_chain_start_def class_name_of_def AllChainDetails_default_def run_simps
      py_len_def py_keys_def py_items_def py_join_def py_iter_def getitem_str_def val_simps)

lemma on_chain_end_empty_never_returns:
  "\<not> returns_normally (on_chain_end (AllChainDetails_init dm OutputFormatter) (PDict []) kw)"
  by (cases "map_of kw ''run_id''"; cases "map_of kw ''parent_run_id''")
     (simp_all add: on_chain_end_def run_simps py_len_def)

lemma on_chain_end_empty_no_warning:
  "effects_all (\<lambda>e. \<not> warning_line e) (on_chain_end (AllChainDetails_init dm OutputFormatter) (PDict []) kw)"
  by (cases "map_of kw ''run_id''"; cases "map_of kw ''parent_run_id''")
     (simp_all add: on_chain_end_def run_simps py_len_def effects_all_def warning_line_def)

lemma on_chain_end_empty_no_output_line:
  "effects_all (\<lambda>e. \<not> output_line e) (on_chain_end (AllChainDetails_init dm OutputFormatter) (PDict []) kw)"
  by (cases "map_of kw ''run_id''"; cases "map_of kw ''parent_run_id''")
     (simp_all add: on_chain_end_def run_simps py_len_def effects_all_def output_line_def)

subsection \<open>No assignment to the reporter\<close>

lemma no_assignment_parts:
  "effects_all (\<lambda>e. \<not> is_assignment e) (class_name_of self serialized)"
  "effects_all (\<lambda>e. \<not> is_assignment e) (print_input self kv)"
  "effects_all (\<lambda>e. \<not> is_assignment e) (print_output self outputs key)"
  "effects_all (\<lambda>e. \<not> is_assignment e) (print_document self n numbered)"
  unfolding class_name_of_def print_input_def print_output_def print_document_def
  by (intro effects_all_rules; simp)+

lemma no_assignment_handlers:
  "effects_all (\<lambda>e. \<not> is_assignment e) (on_text self t kw)"
  "effects_all (\<lambda>e. \<not> is_assignment e) (on_llm_start self serialized prompts kw)"
  "effects_all (\<lambda>e. \<not> is_assignment e) (on_llm_end self response kw)"
  "effects_all (\<lambda>e. \<not> is_assignment e) (on_chain_start self serialized inputs kw)"
  "effects_all (\<lambda>e. \<not> is_assignment e) (on_chain_end self outputs kw)"
  "effects_all (\<lambda>e. \<not> is_assignment e) (on_tool_start self serialized input_str kw)"
  "effects_all (\<lambda>e. \<not> is_assignment e) (on_tool_end self tool_out color op lp kw)"
  "effects_all (\<lambda>e. \<not> is_assignment e) (on_agent_action self action kw)"
  "effects_all (\<lambda>e. \<not> is_assignment e) (on_agent_finish self finish kw)"
  "effects_all (\<lambda>e. \<not> is_assignment e) (on_llm_error self error kw)"
  "effects_all (\<lambda>e. \<not> is_assignment e) (on_chain_error self error kw)"
  "effects_all (\<lambda>e. \<not> is_assignment e) (on_tool_error self error kw)"
  "effects_all (\<lambda>e. \<not> is_assignment e) (on_retriever_start self serialized query run_id parent_run_id tags metadata kw)"
  "effects_all (\<lambda>e. \<not> is_assignment e) (on_retriever_end self documents run_id parent_run_id kw)"
  unfolding on_text_def on_llm_start_def on_llm_end_def on_chain_start_def on_chain_end_def on_tool_start_def on_tool_end_def on_agent_action_def on_agent_finish_def on_llm_error_def on_chain_error_def on_tool_error_def on_retriever_start_def on_retriever_end_def
  by (intro effects_all_rules no_assignment_parts; auto)+

lemma handle_no_assignment:
  "effects_all (\<lambda>e. \<not> is_assignment e) (handle self ev)"
  by (cases ev) (simp_all add: no_assignment_handlers)

lemma assigned_none:
  "list_all (\<lambda>e. \<not> is_assignment e) t \<Longrightarrow> assigned t self = self"
  unfolding assigned_def
proof (induction t)
  case Nil
  show ?case by simp
next
  case (Cons e t)
  then show ?case by (cases e) simp_all
qed

lemma invoke_keeps_reporter: "invoke self ev = (handle self ev, self)"
  using handle_no_assignment [of self ev]
  by (simp add: invoke_def effects_all_def assigned_none)

lemma init_body_assigns:
  "assigned (trace (init_body dm fm)) fresh = AllChainDetails_init dm fm"
  by (simp add: init_body_def assigned_def AllChainDetails_init_def run_defs)

subsection \<open>The operator at a breakpoint\<close>







subsection \<open>The warnings of the guarded cases\<close>







section \<open>The claims\<close>





text \<open>
  Claim C2, as stated: for every event kind, on a well-formed payload, the output is one
  heading, then the line of the run identifier, then the line of the parent run
  identifier, before anything of the payload. \<open>on_llm_error\<close> on an error object and
  keyword arguments with both identifiers writes a red \<open>LLM Error\<close> line and the error
  object, and no identifier.
\<close>

theorem error_handler_prints_no_identifiers:
  "trace (on_llm_error AllChainDetails_default (PObj ''boom'' ''RuntimeError('boom')'' [])
      [(''run_id'', PStr ''r1''), (''parent_run_id'', PNone)]) =
     [DebugError ''LLM Error'', DebugInfoLabeled ''Error object'' ''boom'' False]
   \<and> \<not> opens_with_heading_and_ids ''LLM Error'' ''r1'' ''None''
        (trace (on_llm_error AllChainDetails_default (PObj ''boom'' ''RuntimeError('boom')'' [])
           [(''run_id'', PStr ''r1''), (''parent_run_id'', PNone)]))"
  by (simp add: AllChainDetails_default_def error_handler_runs trace_def py_str_simps)

text \<open>
  Claim C2, amended. With \<open>run_id\<close> and \<open>parent_run_id\<close> supplied, the output of
  \<open>on_llm_start\<close>, \<open>on_llm_end\<close>, \<open>on_chain_end\<close>, \<open>on_tool_start\<close>, \<open>on_tool_end\<close>,
  \<open>on_agent_action\<close>, \<open>on_agent_finish\<close>, \<open>on_retriever_start\<close>, \<open>on_retriever_end\<close>, and
  of \<open>on_text\<close> in debug mode, opens with the one heading of the event, then the run
  identifier line, then the parent run identifier line, whatever the rest of the payload.
  \<open>on_text\<close> writes nothing when \<open>debug_mode\<close> is off. \<open>on_chain_start\<close> writes the
  heading, the chain class line, and then the two identifier lines. The three error
  handlers write an error line and the error object, and no identifier.
\<close>

theorem heading_then_identifiers:
  assumes "map_of kw ''run_id'' = Some rid" and "map_of kw ''parent_run_id'' = Some prid"
    and "map_of sd ''id'' = Some (PList (map PStr comps))"
  shows "opens_with_heading_and_ids (NLNL @ ''> Sending text to the LLM.'') (py_str rid) (py_str prid)
       (trace (on_llm_start (AllChainDetails_init dm OutputFormatter) serialized prompts kw))
   \<and> opens_with_heading_and_ids (NLNL @ ''> Received response from LLM.'') (py_str rid) (py_str prid)
       (trace (on_llm_end (AllChainDetails_init dm OutputFormatter) response kw))
   \<and> opens_with_heading_and_ids (NLNL @ ''> Ending chain.'') (py_str rid) (py_str prid)
       (trace (on_chain_end (AllChainDetails_init dm OutputFormatter) outputs kw))
   \<and> opens_with_heading_and_ids (NLNL @ ''> Using tool.'') (py_str rid) (py_str prid)
       (trace (on_tool_start (AllChainDetails_init dm OutputFormatter) tool_serialized input_str kw))
   \<and> opens_with_heading_and_ids (NLNL @ ''> Received tool output.'') (py_str rid) (py_str prid)
       (trace (on_tool_end (AllChainDetails_init dm OutputFormatter) tool_out color op lp kw))
   \<and> opens_with_heading_and_ids (NLNL @ ''> Agent taking an action.'') (py_str rid) (py_str prid)
       (trace (on_agent_action (AllChainDetails_init dm OutputFormatter) action kw))
   \<and> opens_with_heading_and_ids (NLNL @ ''> Agent has finished.'') (py_str rid) (py_str prid)
       (trace (on_agent_finish (AllChainDetails_init dm OutputFormatter) finish kw))
   \<and> opens_with_heading_and_ids (NLNL @ ''> Querying retriever.'') (py_str run_id) (py_str parent_run_id)
       (trace (on_retriever_start (AllChainDetails_init dm OutputFormatter) ret_serialized query run_id parent_run_id tags metadata kw))
   \<and> opens_with_heading_and_ids (NLNL @ ''> Retriever finished.'') (py_str run_id) (py_str parent_run_id)
       (trace (on_retriever_end (AllChainDetails_init dm OutputFormatter) documents run_id parent_run_id kw))
   \<and> opens_with_heading_and_ids (NLNL @ ''> Preparing text.'') (py_str rid) (py_str prid)
       (trace (on_text (AllChainDetails_init True OutputFormatter) text kw))
   \<and> on_text (AllChainDetails_init False OutputFormatter) text kw = ([], Inr ())
   \<and> take 4 (trace (on_chain_start (AllChainDetails_init dm OutputFormatter) (PDict sd) inputs kw)) =
       [Heading (NLNL @ ''> Starting new chain.''),
        KeyInfoLabeled ''Chain class'' (join ''.'' comps) False,
        KeyInfoLabeled ''Chain ID'' (py_str rid) False,
        KeyInfoLabeled ''Parent chain ID'' (py_str prid) False]
   \<and> on_llm_error (AllChainDetails_init dm OutputFormatter) error kw =
       ([DebugError ''LLM Error'', DebugInfoLabeled ''Error object'' (py_str error) False]
          @ (if dm then [Breakpoint] else []), Inr ())
   \<and> on_chain_error (AllChainDetails_init dm OutputFormatter) error kw =
       ([DebugError ''Chain Error'', DebugInfoLabeled ''Error object'' (py_str error) False]
          @ (if dm then [Breakpoint] else []), Inr ())
   \<and> on_tool_error (AllChainDetails_init dm OutputFormatter) error kw =
       ([DebugError ''Chain Error'', DebugInfoLabeled ''Error object'' (py_str error) False]
          @ (if dm then [Breakpoint] else []), Inr ())"
proof (intro conjI)
  show "opens_with_heading_and_ids (NLNL @ ''> Sending text to the LLM.'') (py_str rid) (py_str prid)
       (trace (on_llm_start (AllChainDetails_init dm OutputFormatter) serialized prompts kw))"
    by (rule on_llm_start_opens [OF assms(1,2)])
  show "opens_with_heading_and_ids (NLNL @ ''> Received response from LLM.'') (py_str rid) (py_str prid)
       (trace (on_llm_end (AllChainDetails_init dm OutputFormatter) response kw))"
    by (rule on_llm_end_opens [OF assms(1,2)])
  show "opens_with_heading_and_ids (NLNL @ ''> Ending chain.'') (py_str rid) (py_str prid)
       (trace (on_chain_end (AllChainDetails_init dm OutputFormatter) outputs kw))"
    by (rule on_chain_end_opens [OF assms(1,2)])
  show "opens_with_heading_and_ids (NLNL @ ''> Using tool.'') (py_str rid) (py_str prid)
       (trace (on_tool_start (AllChainDetails_init dm OutputFormatter) tool_serialized input_str kw))"
    by (rule on_tool_start_opens [OF assms(1,2)])
  show "opens_with_heading_and_ids (NLNL @ ''> Received tool output.'') (py_str rid) (py_str prid)
       (trace (on_tool_end (AllChainDetails_init dm OutputFormatter) tool_out color op lp kw))"
    by (rule on_tool_end_opens [OF assms(1,2)])
  show "opens_with_heading_and_ids (NLNL @ ''> Agent taking an action.'') (py_str rid) (py_str prid)
       (trace (on_agent_action (AllChainDetails_init dm OutputFormatter) action kw))"
    by (rule on_agent_action_opens [OF assms(1,2)])
  show "opens_with_heading_and_ids (NLNL @ ''> Agent has finished.'') (py_str rid) (py_str prid)
       (trace (on_agent_finish (AllChainDetails_init dm OutputFormatter) finish kw))"
    by (rule on_agent_finish_opens [OF assms(1,2)])
  show "opens_with_heading_and_ids (NLNL @ ''> Querying retriever.'') (py_str run_id) (py_str parent_run_id)
       (trace (on_retriever_start (AllChainDetails_init dm OutputFormatter) ret_serialized query run_id parent_run_id tags metadata kw))"
    by (rule on_retriever_start_opens)
  show "opens_with_heading_and_ids (NLNL @ ''> Retriever finished.'') (py_str run_id) (py_str parent_run_id)
       (trace (on_retriever_end (AllChainDetails_init dm OutputFormatter) documents run_id parent_run_id kw))"
    by (rule on_retriever_end_opens)
  show "opens_with_heading_and_ids (NLNL @ ''> Preparing text.'') (py_str rid) (py_str prid)
       (trace (on_text (AllChainDetails_init True OutputFormatter) text kw))"
    by (rule on_text_opens [OF assms(1,2)])
  show "on_text (AllChainDetails_init False OutputFormatter) text kw = ([], Inr ())"
    by (rule on_text_silent)
  show "take 4 (trace (on_chain_start (AllChainDetails_init dm OutputFormatter) (PDict sd) inputs kw)) =
       [Heading (NLNL @ ''> Starting new chain.''),
        KeyInfoLabeled ''Chain class'' (join ''.'' comps) False,
        KeyInfoLabeled ''Chain ID'' (py_str rid) False,
        KeyInfoLabeled ''Parent chain ID'' (py_str prid) False]"
    using on_chain_start_prefix_ids [OF class_name_of_present [OF assms(3)] assms(1,2), of dm inputs]
    by (simp add: eval_nat_numeral)
  show "on_llm_error (AllChainDetails_init dm OutputFormatter) error kw =
       ([DebugError ''LLM Error'', DebugInfoLabeled ''Error object'' (py_str error) False]
          @ (if dm then [Breakpoint] else []), Inr ())"
    by (rule error_handler_runs)
  show "on_chain_error (AllChainDetails_init dm OutputFormatter) error kw =
       ([DebugError ''Chain Error'', DebugInfoLabeled ''Error object'' (py_str error) False]
          @ (if dm then [Breakpoint] else []), Inr ())"
    by (rule error_handler_runs)
  show "on_tool_error (AllChainDetails_init dm OutputFormatter) error kw =
       ([DebugError ''Chain Error'', DebugInfoLabeled ''Error object'' (py_str error) False]
          @ (if dm then [Breakpoint] else []), Inr ())"
    by (rule error_handler_runs)
qed

theorem heading_then_identifiers_witness:
  "map_of [(''run_id'', PStr ''r1''), (''parent_run_id'', PNone)] ''run_id'' = Some (PStr ''r1'')
   \<and> map_of [(''run_id'', PStr ''r1''), (''parent_run_id'', PNone)] ''parent_run_id'' = Some PNone
   \<and> map_of [(''id'', PList (map PStr [''langchain'', ''chains'', ''LLMChain'']))] ''id'' =
       Some (PList (map PStr [''langchain'', ''chains'', ''LLMChain'']))
   \<and> opens_with_heading_and_ids (NLNL @ ''> Sending text to the LLM.'') ''r1'' ''None''
       (trace (on_llm_start (AllChainDetails_init False OutputFormatter) (PDict [])
          (PList [PStr ''What food pairs well with chocolate?'']) [(''run_id'', PStr ''r1''), (''parent_run_id'', PNone)]))
   \<and> take 4 (trace (on_chain_start (AllChainDetails_init False OutputFormatter)
          (PDict [(''id'', PList (map PStr [''langchain'', ''chains'', ''LLMChain'']))]) (PDict [(''food'', PStr ''chocolate'')]) [(''run_id'', PStr ''r1''), (''parent_run_id'', PNone)])) =
       [Heading (NLNL @ ''> Starting new chain.''),
        KeyInfoLabeled ''Chain class'' ''langchain.chains.LLMChain'' False,
        KeyInfoLabeled ''Chain ID'' ''r1'' False,
        KeyInfoLabeled ''Parent chain ID'' ''None'' False]"
  using heading_then_identifiers
    [where kw = "[(''run_id'', PStr ''r1''), (''parent_run_id'', PNone)]" and rid = "PStr ''r1''" and prid = PNone
       and sd = "[(''id'', PList (map PStr [''langchain'', ''chains'', ''LLMChain'']))]" and comps = "[''langchain'', ''chains'', ''LLMChain'']"
       and dm = False and serialized = "PDict []"
       and prompts = "PList [PStr ''What food pairs well with chocolate?'']"
       and inputs = "PDict [(''food'', PStr ''chocolate'')]"]
  by (simp add: py_str_simps)

text \<open>
  Claim C3. On a chain-end payload with an empty output mapping the output holds a
  warning line and no output-key line. The code writes no output-key line, and no warning
  either: with the default formatter the call that should warn raises \<open>AttributeError\<close>,
  whatever the keyword arguments and the debug flag.
\<close>

theorem on_chain_end_empty_outputs:
  "on_chain_end AllChainDetails_default (PDict []) [(''run_id'', PStr ''r1''), (''parent_run_id'', PNone)] =
     ([Heading (NLNL @ ''> Ending chain.''),
       KeyInfoLabeled ''Chain ID'' ''r1'' False,
       KeyInfoLabeled ''Parent chain ID'' ''None'' False],
      Inl (AttributeError ''debug_errors''))
   \<and> \<not> returns_normally (on_chain_end (AllChainDetails_init dm OutputFormatter) (PDict []) kw)
   \<and> effects_all (\<lambda>e. \<not> warning_line e)
        (on_chain_end (AllChainDetails_init dm OutputFormatter) (PDict []) kw)
   \<and> effects_all (\<lambda>e. \<not> output_line e)
        (on_chain_end (AllChainDetails_init dm OutputFormatter) (PDict []) kw)"
proof (intro conjI)
  show "on_chain_end AllChainDetails_default (PDict []) [(''run_id'', PStr ''r1''), (''parent_run_id'', PNone)] =
     ([Heading (NLNL @ ''> Ending chain.''),
       KeyInfoLabeled ''Chain ID'' ''r1'' False,
       KeyInfoLabeled ''Parent chain ID'' ''None'' False],
      Inl (AttributeError ''debug_errors''))"
    by (simp add: on_chain_end_def AllChainDetails_default_def run_simps py_len_def val_simps)
  show "\<not> returns_normally (on_chain_end (AllChainDetails_init dm OutputFormatter) (PDict []) kw)"
    by (rule on_chain_end_empty_never_returns)
  show "effects_all (\<lambda>e. \<not> warning_line e)
        (on_chain_end (AllChainDetails_init dm OutputFormatter) (PDict []) kw)"
    by (rule on_chain_end_empty_no_warning)
  show "effects_all (\<lambda>e. \<not> output_line e)
        (on_chain_end (AllChainDetails_init dm OutputFormatter) (PDict []) kw)"
    by (rule on_chain_end_empty_no_output_line)
qed

text \<open>
  Claim C4. An LLM-start payload with the two prompts \<open>["a", "b"]\<close>, the identifiers
  supplied. Not verbose: the run is the heading, the two identifier lines, the two
  warnings, and the text \<open>a\<close>; nothing of the second prompt is written (the run is the
  same whatever the second prompt is). Verbose: the prompt list \<open>['a', 'b']\<close> is written
  too, and the handler stops at \<open>breakpoint()\<close>.
\<close>

theorem on_llm_start_two_prompts:
  assumes "map_of kw ''run_id'' = Some rid" and "map_of kw ''parent_run_id'' = Some prid"
  shows "on_llm_start (AllChainDetails_init False OutputFormatter) serialized
           (PList [PStr ''a'', PStr ''b'']) kw =
         ([Heading (NLNL @ ''> Sending text to the LLM.''),
           KeyInfoLabeled ''Chain ID'' (py_str rid) False,
           KeyInfoLabeled ''Parent chain ID'' (py_str prid) False,
           DebugError ''prompts has multiple items.'',
           DebugError ''Only outputting first item in prompts.'',
           KeyInfo ''Text sent to LLM:'',
           LlmCall ''a''],
          Inr ())
       \<and> on_llm_start (AllChainDetails_init False OutputFormatter) serialized
           (PList [PStr ''a'', other]) kw =
         on_llm_start (AllChainDetails_init False OutputFormatter) serialized
           (PList [PStr ''a'', PStr ''b'']) kw
       \<and> on_llm_start (AllChainDetails_init True OutputFormatter) serialized
           (PList [PStr ''a'', PStr ''b'']) kw =
         ([Heading (NLNL @ ''> Sending text to the LLM.''),
           KeyInfoLabeled ''Chain ID'' (py_str rid) False,
           KeyInfoLabeled ''Parent chain ID'' (py_str prid) False,
           DebugError ''prompts has multiple items.'',
           DebugError ''Only outputting first item in prompts.'',
           DebugInfoLabeled ''Prompts'' ''['a', 'b']'' False,
           Breakpoint,
           KeyInfo ''Text sent to LLM:'',
           LlmCall ''a'',
           DebugInfoLabeled ''Arguments'' (kwargs_str kw) False,
           DebugInfoLabeled ''serialized'' (py_str serialized) False],
          Inr ())"
  using assms
  by (simp add: on_llm_start_def run_simps py_len_def getitem_int_def val_simps)
     (simp add: py_str_a_b)

theorem on_llm_start_two_prompts_witness:
  "map_of [(''run_id'', PStr ''r1''), (''parent_run_id'', PNone)] ''run_id'' = Some (PStr ''r1'')
   \<and> map_of [(''run_id'', PStr ''r1''), (''parent_run_id'', PNone)] ''parent_run_id'' = Some PNone
   \<and> on_llm_start (AllChainDetails_init False OutputFormatter) (PDict [])
        (PList [PStr ''a'', PStr ''b'']) [(''run_id'', PStr ''r1''), (''parent_run_id'', PNone)] =
      ([Heading (NLNL @ ''> Sending text to the LLM.''),
        KeyInfoLabeled ''Chain ID'' ''r1'' False,
        KeyInfoLabeled ''Parent chain ID'' ''None'' False,
        DebugError ''prompts has multiple items.'',
        DebugError ''Only outputting first item in prompts.'',
        KeyInfo ''Text sent to LLM:'',
        LlmCall ''a''],
       Inr ())
   \<and> Breakpoint \<in> set (trace (on_llm_start (AllChainDetails_init True OutputFormatter) (PDict [])
        (PList [PStr ''a'', PStr ''b'']) [(''run_id'', PStr ''r1''), (''parent_run_id'', PNone)]))"
  using on_llm_start_two_prompts
    [where kw = "[(''run_id'', PStr ''r1''), (''parent_run_id'', PNone)]" and rid = "PStr ''r1''" and prid = PNone and serialized = "PDict []"
       and other = "PStr ''b''"]
  by (simp add: py_str_simps trace_def)

text \<open>
  Claim C5. No chain-start payload, delivered to any reporter, gets a line for the key
  \<open>stop\<close> or \<open>agent_scratchpad\<close> in the key/value list. And when the class name is
  determined, the identifiers are supplied and the input mapping is not empty, the list
  written after \<open>Iterating through keys/values of chain inputs:\<close> is one line per other
  key, with its value, in the order of the mapping.
\<close>

theorem chain_inputs_key_value_list:
  "effects_all (\<lambda>e. \<not> prints_noise_key e) (on_chain_start self serialized inputs kw')
   \<and> (class_name_of (AllChainDetails_init dm OutputFormatter) chain = (ct, Inr cn)
        \<and> map_of kw ''run_id'' = Some rid \<and> map_of kw ''parent_run_id'' = Some prid
        \<and> kvs \<noteq> [] \<longrightarrow>
      on_chain_start (AllChainDetails_init dm OutputFormatter) chain (PDict kvs) kw =
        (Heading (NLNL @ ''> Starting new chain.'') # ct
         @ [KeyInfoLabeled ''Chain class'' cn False,
            KeyInfoLabeled ''Chain ID'' (py_str rid) False,
            KeyInfoLabeled ''Parent chain ID'' (py_str prid) False,
            KeyInfo ''Iterating through keys/values of chain inputs:'']
         @ map input_line (filter (\<lambda>kv. fst kv \<notin> set [''stop'', ''agent_scratchpad'']) kvs)
         @ (if dm then
              [DebugInfoLabeled ''Arguments'' (kwargs_str kw) False,
               DebugInfoLabeled ''inputs'' (py_str (PDict kvs)) False,
               DebugInfoLabeled ''serialized'' (py_str chain) False]
            else []),
         Inr ()))"
  using on_chain_start_no_noise [of self serialized inputs kw']
    on_chain_start_run [of dm chain ct cn kw rid prid kvs]
  by blast

theorem chain_inputs_key_value_list_witness:
  "class_name_of (AllChainDetails_init False OutputFormatter) (PDict [(''id'', PList (map PStr [''langchain'', ''chains'', ''LLMChain'']))]) =
       ([], Inr ''langchain.chains.LLMChain'')
   \<and> map_of [(''run_id'', PStr ''r1''), (''parent_run_id'', PNone)] ''run_id'' = Some (PStr ''r1'')
   \<and> map_of [(''run_id'', PStr ''r1''), (''parent_run_id'', PNone)] ''parent_run_id'' = Some PNone
   \<and> [(''food'', PStr ''chocolate''), (''stop'', PNone), (''agent_scratchpad'', PStr [])] \<noteq> []
   \<and> on_chain_start (AllChainDetails_init False OutputFormatter) (PDict [(''id'', PList (map PStr [''langchain'', ''chains'', ''LLMChain'']))])
        (PDict [(''food'', PStr ''chocolate''), (''stop'', PNone), (''agent_scratchpad'', PStr [])])
        [(''run_id'', PStr ''r1''), (''parent_run_id'', PNone)] =
      ([Heading (NLNL @ ''> Starting new chain.''),
        KeyInfoLabeled ''Chain class'' ''langchain.chains.LLMChain'' False,
        KeyInfoLabeled ''Chain ID'' ''r1'' False,
        KeyInfoLabeled ''Parent chain ID'' ''None'' False,
        KeyInfo ''Iterating through keys/values of chain inputs:'',
        KeyInfoLabeled ''   food'' ''chocolate'' False],
       Inr ())"
proof -
  have cls: "class_name_of (AllChainDetails_init False OutputFormatter) (PDict [(''id'', PList (map PStr [''langchain'', ''chains'', ''LLMChain'']))]) =
       ([], Inr ''langchain.chains.LLMChain'')"
    by (simp add: class_name_of_present [where comps = "[''langchain'', ''chains'', ''LLMChain'']"])
  show ?thesis
    using cls chain_inputs_key_value_list
      [where dm = False and chain = "PDict [(''id'', PList (map PStr [''langchain'', ''chains'', ''LLMChain'']))]" and ct = "[]"
         and cn = "''langchain.chains.LLMChain''" and kw = "[(''run_id'', PStr ''r1''), (''parent_run_id'', PNone)]"
         and rid = "PStr ''r1''" and prid = PNone
         and kvs = "[(''food'', PStr ''chocolate''), (''stop'', PNone), (''agent_scratchpad'', PStr [])]"]
    by (simp add: input_line_def py_str_simps)
qed

text \<open>
  Claim C6. A retriever-end payload with no document: the output holds the line
  \<open>Found 0 documents.\<close> and a warning. With two documents (each with \<open>metadata\<close> and
  \<open>page_content\<close>): two \<open>Document number\<close> sections, number 0 before number 1, in the
  order of the input, and no other.
\<close>

theorem on_retriever_end_documents:
  assumes "py_getattr d0 ''metadata'' = Inr m0" and "py_getattr d0 ''page_content'' = Inr c0"
    and "py_getattr d1 ''metadata'' = Inr m1" and "py_getattr d1 ''page_content'' = Inr c1"
  shows "on_retriever_end (AllChainDetails_init dm OutputFormatter) (PList []) run_id parent_run_id kw =
         ([Heading (NLNL @ ''> Retriever finished.''),
           KeyInfoLabeled ''Chain ID'' (py_str run_id) False,
           KeyInfoLabeled ''Parent chain ID'' (py_str parent_run_id) False,
           KeyInfo ''Found 0 documents.'',
           DebugError ''No documents found.''] @ (if dm then [Breakpoint] else []),
          Inr ())
       \<and> on_retriever_end (AllChainDetails_init dm OutputFormatter) (PList [d0, d1]) run_id parent_run_id kw =
         ([Heading (NLNL @ ''> Retriever finished.''),
           KeyInfoLabeled ''Chain ID'' (py_str run_id) False,
           KeyInfoLabeled ''Parent chain ID'' (py_str parent_run_id) False,
           KeyInfo ''Found 2 documents.'',
           KeyInfo ''---------------------------------------------------'',
           KeyInfo ''Document number 0 of 2'',
           KeyInfoLabeled ''Metadata'' (py_str m0) False,
           KeyInfo ''Document contents:'',
           ToolOutput (py_str c0),
           KeyInfo ''---------------------------------------------------'',
           KeyInfo ''Document number 1 of 2'',
           KeyInfoLabeled ''Metadata'' (py_str m1) False,
           KeyInfo ''Document contents:'',
           ToolOutput (py_str c1)],
          Inr ())
       \<and> length (filter document_number_line
             (trace (on_retriever_end (AllChainDetails_init dm OutputFormatter) (PList [d0, d1])
                run_id parent_run_id kw))) = 2"
  using assms
  by (simp add: on_retriever_end_def print_document_def run_simps py_len_def py_iter_def
      val_simps enumerate_eq_zip nat_str_small del: nat_str.simps)

theorem on_retriever_end_documents_witness:
  "py_getattr (PObj ''d0'' ''D0'' [(''page_content'', PStr ''x''), (''metadata'', PDict [])])
       ''metadata'' = Inr (PDict [])
   \<and> py_getattr (PObj ''d0'' ''D0'' [(''page_content'', PStr ''x''), (''metadata'', PDict [])])
       ''page_content'' = Inr (PStr ''x'')
   \<and> py_getattr (PObj ''d1'' ''D1'' [(''page_content'', PStr ''y''), (''metadata'', PNone)])
       ''metadata'' = Inr PNone
   \<and> py_getattr (PObj ''d1'' ''D1'' [(''page_content'', PStr ''y''), (''metadata'', PNone)])
       ''page_content'' = Inr (PStr ''y'')
   \<and> length (filter document_number_line
        (trace (on_retriever_end (AllChainDetails_init False OutputFormatter)
           (PList [PObj ''d0'' ''D0'' [(''page_content'', PStr ''x''), (''metadata'', PDict [])],
                   PObj ''d1'' ''D1'' [(''page_content'', PStr ''y''), (''metadata'', PNone)]])
           (PStr ''r1'') PNone []))) = 2"
  using on_retriever_end_documents
    [where ?d0.0 = "PObj ''d0'' ''D0'' [(''page_content'', PStr ''x''), (''metadata'', PDict [])]"
       and ?d1.0 = "PObj ''d1'' ''D1'' [(''page_content'', PStr ''y''), (''metadata'', PNone)]"
       and ?m0.0 = "PDict []" and ?c0.0 = "PStr ''x''" and ?m1.0 = PNone and ?c1.0 = "PStr ''y''"
       and dm = False and run_id = "PStr ''r1''" and parent_run_id = PNone and kw = "[]"]
  by (simp add: py_getattr_def trace_def)

text \<open>
  Claim C7. A chain-start or retriever-start payload whose \<open>serialized\<close> mapping has no
  \<open>"id"\<close> key: the handler warns, stops at \<open>breakpoint()\<close> when verbose (after writing
  \<open>serialized\<close>), and writes the class-name line with the label
  \<open>Unknown -- serialized['id'] is missing\<close>. When \<open>"id"\<close> is there, a list of strings, the
  class name written is its components joined with a dot, and nothing warns.
\<close>

theorem missing_id_unknown_class:
  assumes "map_of sd ''id'' = None"
    and "map_of sd' ''id'' = Some (PList (map PStr comps))"
  shows "take (if dm then 5 else 3)
           (trace (on_chain_start (AllChainDetails_init dm OutputFormatter) (PDict sd) inputs kw)) =
         [Heading (NLNL @ ''> Starting new chain.''),
          DebugError ''Missing serialized['id']'']
         @ (if dm then [DebugInfoLabeled ''serialized'' (py_str (PDict sd)) False, Breakpoint] else [])
         @ [KeyInfoLabeled ''Chain class'' ''Unknown -- serialized['id'] is missing'' False]
       \<and> on_retriever_start (AllChainDetails_init dm OutputFormatter) (PDict sd) query run_id
           parent_run_id tags metadata kw =
         ([Heading (NLNL @ ''> Querying retriever.''),
           KeyInfoLabeled ''Chain ID'' (py_str run_id) False,
           KeyInfoLabeled ''Parent chain ID'' (py_str parent_run_id) False,
           KeyInfoLabeled ''Tags'' (py_str tags) False,
           DebugError ''Missing serialized['id']'']
          @ (if dm then [DebugInfoLabeled ''serialized'' (py_str (PDict sd)) False, Breakpoint] else [])
          @ [KeyInfoLabeled ''Retriever class'' ''Unknown -- serialized['id'] is missing'' False,
             KeyInfo ''Query sent to retriever:'',
             ToolCall (py_str query)]
          @ (if dm then
               [DebugInfoLabeled ''Arguments'' (kwargs_str kw) False,
                DebugInfoLabeled ''metadata'' (py_str metadata) False,
                DebugInfoLabeled ''serialized'' (py_str (PDict sd)) False]
             else []),
          Inr ())
       \<and> take 2
           (trace (on_chain_start (AllChainDetails_init dm OutputFormatter) (PDict sd') inputs kw)) =
         [Heading (NLNL @ ''> Starting new chain.''),
          KeyInfoLabeled ''Chain class'' (join ''.'' comps) False]
       \<and> on_retriever_start (AllChainDetails_init dm OutputFormatter) (PDict sd') query run_id
           parent_run_id tags metadata kw =
         ([Heading (NLNL @ ''> Querying retriever.''),
           KeyInfoLabeled ''Chain ID'' (py_str run_id) False,
           KeyInfoLabeled ''Parent chain ID'' (py_str parent_run_id) False,
           KeyInfoLabeled ''Tags'' (py_str tags) False,
           KeyInfoLabeled ''Retriever class'' (join ''.'' comps) False,
           KeyInfo ''Query sent to retriever:'',
           ToolCall (py_str query)]
          @ (if dm then
               [DebugInfoLabeled ''Arguments'' (kwargs_str kw) False,
                DebugInfoLabeled ''metadata'' (py_str metadata) False,
                DebugInfoLabeled ''serialized'' (py_str (PDict sd')) False]
             else []),
          Inr ())"
proof (intro conjI)
  note missing = class_name_of_missing [OF assms(1), of dm]
  note present = class_name_of_present [OF assms(2), of "AllChainDetails_init dm OutputFormatter"]
  show "take (if dm then 5 else 3)
           (trace (on_chain_start (AllChainDetails_init dm OutputFormatter) (PDict sd) inputs kw)) =
         [Heading (NLNL @ ''> Starting new chain.''),
          DebugError ''Missing serialized['id']'']
         @ (if dm then [DebugInfoLabeled ''serialized'' (py_str (PDict sd)) False, Breakpoint] else [])
         @ [KeyInfoLabeled ''Chain class'' ''Unknown -- serialized['id'] is missing'' False]"
    using on_chain_start_prefix [OF missing, of inputs kw] by (cases dm) (simp_all add: eval_nat_numeral)
  show "take 2
           (trace (on_chain_start (AllChainDetails_init dm OutputFormatter) (PDict sd') inputs kw)) =
         [Heading (NLNL @ ''> Starting new chain.''),
          KeyInfoLabeled ''Chain class'' (join ''.'' comps) False]"
    using on_chain_start_prefix [OF present, of inputs kw] by (simp add: eval_nat_numeral)
  show "on_retriever_start (AllChainDetails_init dm OutputFormatter) (PDict sd) query run_id
           parent_run_id tags metadata kw =
         ([Heading (NLNL @ ''> Querying retriever.''),
           KeyInfoLabeled ''Chain ID'' (py_str run_id) False,
           KeyInfoLabeled ''Parent chain ID'' (py_str parent_run_id) False,
           KeyInfoLabeled ''Tags'' (py_str tags) False,
           DebugError ''Missing serialized['id']'']
          @ (if dm then [DebugInfoLabeled ''serialized'' (py_str (PDict sd)) False, Breakpoint] else [])
          @ [KeyInfoLabeled ''Retriever class'' ''Unknown -- serialized['id'] is missing'' False,
             KeyInfo ''Query sent to retriever:'',
             ToolCall (py_str query)]
          @ (if dm then
               [DebugInfoLabeled ''Arguments'' (kwargs_str kw) False,
                DebugInfoLabeled ''metadata'' (py_str metadata) False,
                DebugInfoLabeled ''serialized'' (py_str (PDict sd)) False]
             else []),
          Inr ())"
    by (simp add: on_retriever_start_run [OF missing])
  show "on_retriever_start (AllChainDetails_init dm OutputFormatter) (PDict sd') query run_id
           parent_run_id tags metadata kw =
         ([Heading (NLNL @ ''> Querying retriever.''),
           KeyInfoLabeled ''Chain ID'' (py_str run_id) False,
           KeyInfoLabeled ''Parent chain ID'' (py_str parent_run_id) False,
           KeyInfoLabeled ''Tags'' (py_str tags) False,
           KeyInfoLabeled ''Retriever class'' (join ''.'' comps) False,
           KeyInfo ''Query sent to retriever:'',
           ToolCall (py_str query)]
          @ (if dm then
               [DebugInfoLabeled ''Arguments'' (kwargs_str kw) False,
                DebugInfoLabeled ''metadata'' (py_str metadata) False,
                DebugInfoLabeled ''serialized'' (py_str (PDict sd')) False]
             else []),
          Inr ())"
    by (simp add: on_retriever_start_run [OF present])
qed

theorem missing_id_unknown_class_witness:
  "map_of [(''name'', PStr ''LLMChain'')] ''id'' = None
   \<and> map_of [(''id'', PList (map PStr [''langchain'', ''chains'', ''LLMChain'']))] ''id'' =
       Some (PList (map PStr [''langchain'', ''chains'', ''LLMChain'']))
   \<and> take 5 (trace (on_chain_start (AllChainDetails_init True OutputFormatter)
        (PDict [(''name'', PStr ''LLMChain'')]) (PDict [(''food'', PStr ''chocolate'')])
        [(''run_id'', PStr ''r1''), (''parent_run_id'', PNone)])) =
      [Heading (NLNL @ ''> Starting new chain.''),
       DebugError ''Missing serialized['id']'',
       DebugInfoLabeled ''serialized'' ''{'name': 'LLMChain'}'' False,
       Breakpoint,
       KeyInfoLabeled ''Chain class'' ''Unknown -- serialized['id'] is missing'' False]
   \<and> take 2 (trace (on_chain_start (AllChainDetails_init True OutputFormatter)
        (PDict [(''id'', PList (map PStr [''langchain'', ''chains'', ''LLMChain'']))])
        (PDict [(''food'', PStr ''chocolate'')])
        [(''run_id'', PStr ''r1''), (''parent_run_id'', PNone)])) =
      [Heading (NLNL @ ''> Starting new chain.''),
       KeyInfoLabeled ''Chain class'' ''langchain.chains.LLMChain'' False]"
proof -
  have s: "py_str (PDict [(''name'', PStr ''LLMChain'')]) = ''{'name': 'LLMChain'}''"
    by code_simp
  show ?thesis
    using missing_id_unknown_class
      [where sd = "[(''name'', PStr ''LLMChain'')]"
         and sd' = "[(''id'', PList (map PStr [''langchain'', ''chains'', ''LLMChain'']))]"
         and comps = "[''langchain'', ''chains'', ''LLMChain'']"
         and dm = True and inputs = "PDict [(''food'', PStr ''chocolate'')]"
         and kw = "[(''run_id'', PStr ''r1''), (''parent_run_id'', PNone)]"]
    by (simp add: s)
qed

text \<open>
  Claim C8. No handler body assigns to an attribute of the reporter: no run of any
  handler, on any reporter and any event, holds an assignment; the two assignments are
  those of \<open>__init__\<close>. So the reporter after a call is the reporter before it, and the
  same event delivered twice to one reporter gives the same run, hence the same console
  text, both times, with \<open>debug_mode\<close> and \<open>out\<close> as they were set at construction.
\<close>

theorem handlers_idempotent:
  "(case invoke_twice self ev of (r1, r2, self') \<Rightarrow>
      r1 = r2 \<and> console_text cpprint (trace r1) = console_text cpprint (trace r2)
      \<and> debug_mode self' = debug_mode self \<and> out self' = out self)
   \<and> effects_all (\<lambda>e. \<not> is_assignment e) (handle self ev)
   \<and> assigned (trace (init_body dm fm)) fresh = AllChainDetails_init dm fm"
  using handle_no_assignment [of self ev]
  by (simp add: invoke_twice_def invoke_keeps_reporter init_body_assigns)

text \<open>
  Claim C9. In \<open>on_tool_end\<close> the test \<open>"output" not in locals()\<close> is false on every call,
  since \<open>output\<close> is a parameter: the warning \<open>No tool output.\<close> is never written, whatever
  the reporter and the arguments, and a call that the framework makes (its keyword
  arguments hold \<open>run_id\<close>, \<open>parent_run_id\<close> and \<open>name\<close>) writes the line
  \<open>Response from tool:\<close> followed by the tool output.
\<close>

theorem on_tool_end_output_branch:
  "''output'' \<in> set on_tool_end_locals
   \<and> effects_all (\<lambda>e. e \<noteq> DebugError ''No tool output.'') (on_tool_end self tool_out color op lp kw)
   \<and> (map_of kw ''run_id'' = Some rid \<and> map_of kw ''parent_run_id'' = Some prid
        \<and> map_of kw ''name'' = Some nm \<longrightarrow>
      on_tool_end (AllChainDetails_init dm OutputFormatter) tool_out color op lp kw =
        ([Heading (NLNL @ ''> Received tool output.''),
          KeyInfoLabeled ''Chain ID'' (py_str rid) False,
          KeyInfoLabeled ''Parent chain ID'' (py_str prid) False,
          KeyInfoLabeled ''Tool name'' (py_str nm) False,
          KeyInfo ''Response from tool:'',
          ToolOutput (py_str tool_out)]
         @ (if dm then
              [DebugInfoLabeled ''Arguments'' (kwargs_str kw) False,
               DebugInfoLabeled ''observation_prefix'' (py_str op) False,
               DebugInfoLabeled ''llm_prefix'' (py_str lp) False]
            else []),
         Inr ()))"
proof (intro conjI impI)
  show "''output'' \<in> set on_tool_end_locals"
    by (simp add: on_tool_end_locals_def)
  show "effects_all (\<lambda>e. e \<noteq> DebugError ''No tool output.'') (on_tool_end self tool_out color op lp kw)"
    by (rule on_tool_end_no_warning)
next
  assume "map_of kw ''run_id'' = Some rid \<and> map_of kw ''parent_run_id'' = Some prid
        \<and> map_of kw ''name'' = Some nm"
  then show "on_tool_end (AllChainDetails_init dm OutputFormatter) tool_out color op lp kw =
        ([Heading (NLNL @ ''> Received tool output.''),
          KeyInfoLabeled ''Chain ID'' (py_str rid) False,
          KeyInfoLabeled ''Parent chain ID'' (py_str prid) False,
          KeyInfoLabeled ''Tool name'' (py_str nm) False,
          KeyInfo ''Response from tool:'',
          ToolOutput (py_str tool_out)]
         @ (if dm then
              [DebugInfoLabeled ''Arguments'' (kwargs_str kw) False,
               DebugInfoLabeled ''observation_prefix'' (py_str op) False,
               DebugInfoLabeled ''llm_prefix'' (py_str lp) False]
            else []),
         Inr ())"
    by (simp add: on_tool_end_def on_tool_end_locals_def run_simps)
qed

theorem on_tool_end_output_branch_witness:
  "map_of [(''run_id'', PStr ''r1''), (''parent_run_id'', PNone), (''name'', PStr ''Calculator'')]
       ''run_id'' = Some (PStr ''r1'')
   \<and> map_of [(''run_id'', PStr ''r1''), (''parent_run_id'', PNone), (''name'', PStr ''Calculator'')]
       ''parent_run_id'' = Some PNone
   \<and> map_of [(''run_id'', PStr ''r1''), (''parent_run_id'', PNone), (''name'', PStr ''Calculator'')]
       ''name'' = Some (PStr ''Calculator'')
   \<and> on_tool_end (AllChainDetails_init False OutputFormatter) (PStr ''4'') PNone PNone PNone
        [(''run_id'', PStr ''r1''), (''parent_run_id'', PNone), (''name'', PStr ''Calculator'')] =
      ([Heading (NLNL @ ''> Received tool output.''),
        KeyInfoLabeled ''Chain ID'' ''r1'' False,
        KeyInfoLabeled ''Parent chain ID'' ''None'' False,
        KeyInfoLabeled ''Tool name'' ''Calculator'' False,
        KeyInfo ''Response from tool:'',
        ToolOutput ''4''],
       Inr ())"
  using on_tool_end_output_branch
    [where kw = "[(''run_id'', PStr ''r1''), (''parent_run_id'', PNone), (''name'', PStr ''Calculator'')]"
       and rid = "PStr ''r1''" and prid = PNone and nm = "PStr ''Calculator''" and dm = False
       and tool_out = "PStr ''4''" and color = PNone and op = PNone and lp = PNone]
  by (simp add: py_str_def)

text \<open>
  Claim C10. \<open>on_tool_error\<close> writes the bold red heading \<open>Chain Error\<close>, the heading of
  \<open>on_chain_error\<close>: on the same arguments the two handlers have the same run.
\<close>

theorem tool_error_heading:
  "on_tool_error self error kw = on_chain_error self error kw
   \<and> trace (on_tool_error (AllChainDetails_init dm OutputFormatter) error kw) =
       DebugError ''Chain Error'' # DebugInfoLabeled ''Error object'' (py_str error) False
         # (if dm then [Breakpoint] else [])
   \<and> hd (trace (on_tool_error (AllChainDetails_init dm OutputFormatter) error kw)) =
       hd (trace (on_chain_error (AllChainDetails_init dm OutputFormatter) error kw))
   \<and> OutputFormatter_text cpprint
        (hd (trace (on_tool_error (AllChainDetails_init dm OutputFormatter) error kw))) =
       BOLD @ RED @ ''Chain Error'' @ END @ NL"
  by (simp add: on_tool_error_def on_chain_error_def run_simps)

end
